theory Spec2Isabelle
  imports Complex_Main "HOL-Library.Word"
begin

section \<open>Frame Encoder: \<open>AudioRecorder.convertFloat32ToInt16\<close>\<close>

text \<open>
  A JavaScript number read from a \<open>Float32Array\<close>: a finite value, one of the two
  infinities, or NaN. Finite values are carried as reals. Inside
  \<open>convertFloat32ToInt16\<close> every finite product is exact in double precision (a
  24-bit significand times a 15-bit constant, magnitude at most 32768), so real
  arithmetic computes what the code computes there. Negative zero is identified with
  zero; both are stored as the integer 0.
\<close>

datatype number = Finite real | Infinity | NegInfinity | NaN

text \<open>\<open>Math.min\<close> and \<open>Math.max\<close> on two arguments: NaN if either is NaN.\<close>

fun Math_min :: "number \<Rightarrow> number \<Rightarrow> number" where
  "Math_min NaN _ = NaN"
| "Math_min _ NaN = NaN"
| "Math_min NegInfinity _ = NegInfinity"
| "Math_min _ NegInfinity = NegInfinity"
| "Math_min Infinity y = y"
| "Math_min x Infinity = x"
| "Math_min (Finite a) (Finite b) = Finite (min a b)"

fun Math_max :: "number \<Rightarrow> number \<Rightarrow> number" where
  "Math_max NaN _ = NaN"
| "Math_max _ NaN = NaN"
| "Math_max Infinity _ = Infinity"
| "Math_max _ Infinity = Infinity"
| "Math_max NegInfinity y = y"
| "Math_max x NegInfinity = x"
| "Math_max (Finite a) (Finite b) = Finite (max a b)"

text \<open>The relational operator \<open><\<close>: false whenever an operand is NaN.\<close>

fun less_than :: "number \<Rightarrow> number \<Rightarrow> bool" where
  "less_than NaN _ = False"
| "less_than _ NaN = False"
| "less_than (Finite a) (Finite b) = (a < b)"
| "less_than NegInfinity NegInfinity = False"
| "less_than NegInfinity _ = True"
| "less_than _ NegInfinity = False"
| "less_than Infinity _ = False"
| "less_than _ Infinity = True"

text \<open>The operator \<open>*\<close>; an infinity times zero is NaN.\<close>

fun times_inf :: "bool \<Rightarrow> real \<Rightarrow> number" where
  "times_inf positive b =
     (if b = 0 then NaN
      else if (0 < b) = positive then Infinity else NegInfinity)"

fun multiply :: "number \<Rightarrow> number \<Rightarrow> number" where
  "multiply NaN _ = NaN"
| "multiply _ NaN = NaN"
| "multiply (Finite a) (Finite b) = Finite (a * b)"
| "multiply Infinity (Finite b) = times_inf True b"
| "multiply NegInfinity (Finite b) = times_inf False b"
| "multiply (Finite a) Infinity = times_inf True a"
| "multiply (Finite a) NegInfinity = times_inf False a"
| "multiply Infinity Infinity = Infinity"
| "multiply NegInfinity NegInfinity = Infinity"
| "multiply Infinity NegInfinity = NegInfinity"
| "multiply NegInfinity Infinity = NegInfinity"

text \<open>Truncation towards zero, the integer part that the typed-array store keeps.\<close>

definition trunc :: "real \<Rightarrow> int" where
  "trunc x = (if x < 0 then \<lceil>x\<rceil> else \<lfloor>x\<rfloor>)"

text \<open>
  Storing a number into an \<open>Int16Array\<close> element (the conversion ToInt16): NaN and the
  infinities become 0, a finite value is truncated and reduced modulo \<open>2 ^ 16\<close>.
\<close>

fun ToInt16 :: "number \<Rightarrow> 16 word" where
  "ToInt16 (Finite x) = word_of_int (trunc x)"
| "ToInt16 _ = 0"

text \<open>The body of the loop, lines 103 and 105: the value assigned to \<open>int16[i]\<close>.\<close>

definition scaled :: "number \<Rightarrow> number" where
  "scaled x =
     (let s = Math_max (Finite (- 1)) (Math_min (Finite 1) x)
      in if less_than s (Finite 0) then multiply s (Finite 32768)
         else multiply s (Finite 32767))"

text \<open>
  The \<open>for\<close> loop over \<open>i\<close>, writing into the array allocated (zero-filled) before it.
\<close>

function convert_loop :: "nat \<Rightarrow> number list \<Rightarrow> 16 word list \<Rightarrow> 16 word list" where
  "convert_loop i float32 int16 =
     (if i < length float32
      then convert_loop (Suc i) float32 (int16[i := ToInt16 (scaled (float32 ! i))])
      else int16)"
  by pat_completeness auto
termination
  by (relation "measure (\<lambda>(i, float32, int16). length float32 - i)") auto

declare convert_loop.simps [simp del]

definition convertFloat32ToInt16 :: "number list \<Rightarrow> 16 word list" where
  "convertFloat32ToInt16 float32 =
     convert_loop 0 float32 (replicate (length float32) 0)"

text \<open>
  The conversion rule in the specification's words, on a finite sample: clamp to
  \<open>[-1, 1]\<close>, scale negative values by 32768 and the others by 32767, truncate.
\<close>

definition spec_sample :: "real \<Rightarrow> int" where
  "spec_sample x =
     (let s = max (- 1) (min 1 x)
      in trunc (if s < 0 then s * 32768 else s * 32767))"

section \<open>Audio Capture Engine: class \<open>AudioRecorder\<close>\<close>

text \<open>
  The browser objects the recorder holds (a media stream, an audio context, two audio
  nodes) are handles into the browser's state. The calls the recorder makes on them:
\<close>

type_synonym handle = nat

datatype api_call =
    GetUserMedia | NewAudioContext | CreateMediaStreamSource | CreateScriptProcessor
  | ConnectSource | ConnectProcessor
  | DisconnectProcessor | DisconnectSource | StopTracks | CloseContext
  | LiveConnect

text \<open>The exception object thrown by a failing call.\<close>

datatype exception = Thrown api_call

text \<open>What a handler reads of an error object: its \<open>name\<close> and its \<open>message\<close>.\<close>

record dom_error =
  name :: string
  message :: string

text \<open>
  The part of the browser the code acts on: which streams have running tracks (capture
  hardware engaged), which audio contexts are open, which node outputs are connected to
  which inputs (the destination of a context is written as the context's own handle),
  the release calls carried out so far in order, the first argument of each
  \<open>console.error\<close> call, the text of each \<open>alert\<close> dialog shown, the streams whose
  video track has its \<open>onended\<close> handler set by the broadcaster, and the name and
  message the browser gives the exception of each call when that call fails.
\<close>

record browser =
  next_handle :: handle
  live_streams :: "handle set"
  open_contexts :: "handle set"
  connections :: "(handle \<times> handle) set"
  released :: "(api_call \<times> handle) list"
  console :: "string list"
  alerts :: "string list"
  onended :: "handle set"
  error_of :: "api_call \<Rightarrow> dom_error"

text \<open>The four private fields of the class that \<open>start\<close> and \<open>stop\<close> touch.\<close>

record AudioRecorder =
  stream :: "handle option"
  audioContext :: "handle option"
  source :: "handle option"
  processor :: "handle option"

text \<open>\<open>new AudioRecorder()\<close>: every field is \<open>null\<close>.\<close>

definition new_AudioRecorder :: AudioRecorder where
  "new_AudioRecorder =
     \<lparr>stream = None, audioContext = None, source = None, processor = None\<rparr>"

text \<open>The browser's side of each call, when it succeeds.\<close>

definition getUserMedia :: "browser \<Rightarrow> handle \<times> browser" where
  "getUserMedia w =
     (next_handle w,
      w\<lparr>next_handle := Suc (next_handle w),
        live_streams := insert (next_handle w) (live_streams w)\<rparr>)"

definition newAudioContext :: "browser \<Rightarrow> handle \<times> browser" where
  "newAudioContext w =
     (next_handle w,
      w\<lparr>next_handle := Suc (next_handle w),
        open_contexts := insert (next_handle w) (open_contexts w)\<rparr>)"

definition createNode :: "browser \<Rightarrow> handle \<times> browser" where
  "createNode w = (next_handle w, w\<lparr>next_handle := Suc (next_handle w)\<rparr>)"

definition connect_node :: "handle \<Rightarrow> handle \<Rightarrow> browser \<Rightarrow> browser" where
  "connect_node a b w = w\<lparr>connections := insert (a, b) (connections w)\<rparr>"

definition disconnect_node :: "api_call \<Rightarrow> handle \<Rightarrow> browser \<Rightarrow> browser" where
  "disconnect_node c n w =
     w\<lparr>connections := {e \<in> connections w. fst e \<noteq> n},
       released := released w @ [(c, n)]\<rparr>"

definition stop_tracks :: "handle \<Rightarrow> browser \<Rightarrow> browser" where
  "stop_tracks s w =
     w\<lparr>live_streams := live_streams w - {s},
       released := released w @ [(StopTracks, s)]\<rparr>"

definition close_context :: "handle \<Rightarrow> browser \<Rightarrow> browser" where
  "close_context c w =
     w\<lparr>open_contexts := open_contexts w - {c},
       released := released w @ [(CloseContext, c)]\<rparr>"

text \<open>
  A method returns normally (\<open>None\<close>) or throws; either way the fields and the browser
  are as the statements executed so far left them.
\<close>

type_synonym 's outcome = "exception option \<times> 's"

text \<open>The \<open>catch\<close> block of \<open>start\<close>: log, then throw the same exception again.\<close>

definition rethrow ::
  "exception \<Rightarrow> AudioRecorder \<Rightarrow> browser \<Rightarrow> (AudioRecorder \<times> browser) outcome" where
  "rethrow e r w = (Some e, r, w\<lparr>console := console w @ [''Error starting recorder:'']\<rparr>)"

text \<open>
  \<open>start(stream?)\<close>. The parameter \<open>throws\<close> says which calls fail; a failing call
  throws before the assignment it feeds.
\<close>

definition start ::
  "(api_call \<Rightarrow> bool) \<Rightarrow> handle option \<Rightarrow> AudioRecorder \<Rightarrow> browser
     \<Rightarrow> (AudioRecorder \<times> browser) outcome" where
  "start throws stream_arg r w =
     (if stream_arg = None \<and> throws GetUserMedia then rethrow (Thrown GetUserMedia) r w
      else
        let (s, w1) = (case stream_arg of Some s \<Rightarrow> (s, w) | None \<Rightarrow> getUserMedia w);
            r1 = r\<lparr>stream := Some s\<rparr>
        in if throws NewAudioContext then rethrow (Thrown NewAudioContext) r1 w1
        else
          let (c, w2) = newAudioContext w1;
              r2 = r1\<lparr>audioContext := Some c\<rparr>
          in if throws CreateMediaStreamSource
             then rethrow (Thrown CreateMediaStreamSource) r2 w2
          else
            let (n, w3) = createNode w2;
                r3 = r2\<lparr>source := Some n\<rparr>
            in if throws CreateScriptProcessor
               then rethrow (Thrown CreateScriptProcessor) r3 w3
            else
              let (p, w4) = createNode w3;
                  r4 = r3\<lparr>processor := Some p\<rparr>
              in if throws ConnectSource then rethrow (Thrown ConnectSource) r4 w4
              else
                let w5 = connect_node n p w4
                in if throws ConnectProcessor
                   then rethrow (Thrown ConnectProcessor) r4 w5
                   else (None, r4, connect_node p c w5))"

text \<open>
  \<open>stop()\<close>: four guarded blocks in sequence, with no \<open>try\<close> around any of them, so a
  throwing release call ends the method there. \<open>audioContext.close()\<close> returns a
  promise that the code drops, so nothing it does can throw into \<open>stop\<close>.
\<close>

definition and_then :: "'s outcome \<Rightarrow> ('s \<Rightarrow> 's outcome) \<Rightarrow> 's outcome" where
  "and_then res k = (case res of (None, s) \<Rightarrow> k s | (Some e, s) \<Rightarrow> (Some e, s))"

definition stop_processor ::
  "(api_call \<Rightarrow> bool) \<Rightarrow> AudioRecorder \<times> browser \<Rightarrow> (AudioRecorder \<times> browser) outcome" where
  "stop_processor throws rw =
     (case processor (fst rw) of
        None \<Rightarrow> (None, rw)
      | Some p \<Rightarrow>
          if throws DisconnectProcessor then (Some (Thrown DisconnectProcessor), rw)
          else (None, (fst rw)\<lparr>processor := None\<rparr>,
                disconnect_node DisconnectProcessor p (snd rw)))"

definition stop_source ::
  "(api_call \<Rightarrow> bool) \<Rightarrow> AudioRecorder \<times> browser \<Rightarrow> (AudioRecorder \<times> browser) outcome" where
  "stop_source throws rw =
     (case source (fst rw) of
        None \<Rightarrow> (None, rw)
      | Some n \<Rightarrow>
          if throws DisconnectSource then (Some (Thrown DisconnectSource), rw)
          else (None, (fst rw)\<lparr>source := None\<rparr>,
                disconnect_node DisconnectSource n (snd rw)))"

definition stop_stream ::
  "(api_call \<Rightarrow> bool) \<Rightarrow> AudioRecorder \<times> browser \<Rightarrow> (AudioRecorder \<times> browser) outcome" where
  "stop_stream throws rw =
     (case stream (fst rw) of
        None \<Rightarrow> (None, rw)
      | Some s \<Rightarrow>
          if throws StopTracks then (Some (Thrown StopTracks), rw)
          else (None, (fst rw)\<lparr>stream := None\<rparr>, stop_tracks s (snd rw)))"

definition stop_context :: "AudioRecorder \<times> browser \<Rightarrow> (AudioRecorder \<times> browser) outcome" where
  "stop_context rw =
     (case audioContext (fst rw) of
        None \<Rightarrow> (None, rw)
      | Some c \<Rightarrow> (None, (fst rw)\<lparr>audioContext := None\<rparr>, close_context c (snd rw)))"

definition stop ::
  "(api_call \<Rightarrow> bool) \<Rightarrow> AudioRecorder \<Rightarrow> browser \<Rightarrow> (AudioRecorder \<times> browser) outcome" where
  "stop throws r w =
     and_then (and_then (and_then (stop_processor throws (r, w))
       (stop_source throws)) (stop_stream throws)) stop_context"

text \<open>
  What "nothing of the recorder's is left engaged" means for the handles in \<open>r\<close>, in the
  browser state \<open>w\<close>: the stream has no running track, the context is not open, and
  neither node has an outgoing connection.
\<close>

definition nothing_engaged :: "AudioRecorder \<Rightarrow> browser \<Rightarrow> bool" where
  "nothing_engaged r w =
     ((case stream r of None \<Rightarrow> True | Some s \<Rightarrow> s \<notin> live_streams w)
      \<and> (case audioContext r of None \<Rightarrow> True | Some c \<Rightarrow> c \<notin> open_contexts w)
      \<and> (case source r of None \<Rightarrow> True | Some n \<Rightarrow> n \<notin> fst ` connections w)
      \<and> (case processor r of None \<Rightarrow> True | Some p \<Rightarrow> p \<notin> fst ` connections w))"

text \<open>The release calls \<open>stop\<close> makes for the fields that are set, in program order.\<close>

definition release_sequence :: "AudioRecorder \<Rightarrow> (api_call \<times> handle) list" where
  "release_sequence r =
     (case processor r of None \<Rightarrow> [] | Some p \<Rightarrow> [(DisconnectProcessor, p)])
     @ (case source r of None \<Rightarrow> [] | Some n \<Rightarrow> [(DisconnectSource, n)])
     @ (case stream r of None \<Rightarrow> [] | Some s \<Rightarrow> [(StopTracks, s)])
     @ (case audioContext r of None \<Rightarrow> [] | Some c \<Rightarrow> [(CloseContext, c)])"

text \<open>
  A browser state with nothing in it, for the concrete runs below; its exceptions carry
  no name and no message.
\<close>

definition no_details :: "api_call \<Rightarrow> dom_error" where
  "no_details c = \<lparr>name = [], message = []\<rparr>"

definition empty_browser :: browser where
  "empty_browser =
     \<lparr>next_handle = 0, live_streams = {}, open_contexts = {}, connections = {},
      released = [], console = [], alerts = [], onended = {}, error_of = no_details\<rparr>"

text \<open>Fault plans: no call fails; exactly one named call fails.\<close>

definition never :: "api_call \<Rightarrow> bool" where
  "never c = False"

definition only :: "api_call \<Rightarrow> api_call \<Rightarrow> bool" where
  "only c d = (d = c)"

text \<open>None of the three release calls made synchronously by \<open>stop\<close> throws.\<close>

definition no_release_throws :: "(api_call \<Rightarrow> bool) \<Rightarrow> bool" where
  "no_release_throws throws =
     (\<not> throws DisconnectProcessor \<and> \<not> throws DisconnectSource \<and> \<not> throws StopTracks)"

text \<open>
  The recorder and the browser after a successful \<open>start()\<close> on the microphone from
  the empty browser state.
\<close>

definition started_recorder :: AudioRecorder where
  "started_recorder =
     \<lparr>stream = Some 0, audioContext = Some 1, source = Some 2, processor = Some 3\<rparr>"

definition started_browser :: browser where
  "started_browser =
     \<lparr>next_handle = 4, live_streams = {0}, open_contexts = {1},
      connections = {(3, 1), (2, 3)}, released = [], console = [], alerts = [],
      onended = {}, error_of = no_details\<rparr>"

section \<open>Transcript persistence: the \<open>transcripts\<close> table, \<open>saveToDb\<close> and \<open>debouncedSave\<close>\<close>

text \<open>
  A row of the table, with the columns the code reads or writes. A column that an insert
  does not send is left to the table (\<open>None\<close> here). Timestamps are clock readings.
\<close>

record transcript_row =
  row_id :: nat
  session_id :: string
  user_id :: string
  full_transcript_text :: string
  updated_at :: "nat option"
  source_language :: "string option"

text \<open>The table, and the next primary key the table hands out on an insert.\<close>

record store =
  rows :: "transcript_row list"
  next_id :: nat

text \<open>
  How a request to the store ends: the promise resolves with the data, resolves with an
  \<open>error\<close> member and no data, or rejects (which \<open>await\<close> turns into a throw).
\<close>

datatype store_call = Select | Update | Insert | Upsert

datatype reply = Resolves | ResolvesWithError | Rejects

datatype failure = Rejected store_call

text \<open>
  \<open>select('id').eq('session_id', sid).single()\<close>: the data is the matching row when
  exactly one row matches, and \<open>null\<close> (with an error) when none or several do.
\<close>

definition select_single :: "string \<Rightarrow> store \<Rightarrow> transcript_row option" where
  "select_single sid st =
     (case filter (\<lambda>r. session_id r = sid) (rows st) of
        [r] \<Rightarrow> Some r
      | _ \<Rightarrow> None)"

text \<open>\<open>update({full_transcript_text, updated_at}).eq('id', i)\<close>.\<close>

definition update_row :: "nat \<Rightarrow> string \<Rightarrow> nat \<Rightarrow> store \<Rightarrow> store" where
  "update_row i text now st =
     st\<lparr>rows :=
          map (\<lambda>r. if row_id r = i
                    then r\<lparr>full_transcript_text := text, updated_at := Some now\<rparr>
                    else r)
              (rows st)\<rparr>"

text \<open>\<open>insert({session_id, user_id, full_transcript_text, source_language})\<close>.\<close>

definition insert_row :: "string \<Rightarrow> string \<Rightarrow> store \<Rightarrow> store" where
  "insert_row sid text st =
     st\<lparr>rows := rows st @
            [\<lparr>row_id = next_id st, session_id = sid, user_id = ''broadcaster-user'',
              full_transcript_text = text, updated_at = None,
              source_language = Some ''auto''\<rparr>],
        next_id := Suc (next_id st)\<rparr>"

text \<open>
  \<open>upsert({session_id, user_id, full_transcript_text, updated_at}, {onConflict: 'id'})\<close>:
  the payload carries no \<open>id\<close>, so no conflict on \<open>id\<close> arises and a row is added.
\<close>

definition upsert_row :: "string \<Rightarrow> string \<Rightarrow> nat \<Rightarrow> store \<Rightarrow> store" where
  "upsert_row sid text now st =
     st\<lparr>rows := rows st @
            [\<lparr>row_id = next_id st, session_id = sid, user_id = ''broadcaster-user'',
              full_transcript_text = text, updated_at = Some now,
              source_language = None\<rparr>],
        next_id := Suc (next_id st)\<rparr>"

text \<open>
  The result of an async function: the promise resolves (\<open>None\<close>) or rejects with the
  exception that escaped the body; with it, the store and the console lines written.
\<close>

type_synonym saved = "failure option \<times> store \<times> string list"

text \<open>
  \<open>saveToDb\<close> (lines 47 to 61), defined in the effect but never called: guarded, and
  with a \<open>try\<close>/\<open>catch\<close> that logs.
\<close>

definition saveToDb ::
  "(store_call \<Rightarrow> reply) \<Rightarrow> nat \<Rightarrow> string \<Rightarrow> string \<Rightarrow> store \<Rightarrow> string list \<Rightarrow> saved" where
  "saveToDb replies now sid fullText st logged =
     (if sid = [] \<or> fullText = [] then (None, st, logged)
      else
        (case replies Upsert of
           Rejects \<Rightarrow> (None, st, logged @ [''DB Save Error''])
         | ResolvesWithError \<Rightarrow> (None, st, logged)
         | Resolves \<Rightarrow> (None, upsert_row sid fullText now st, logged)))"

text \<open>
  \<open>debouncedSave\<close> (lines 63 to 80), the function behind \<open>dbUpdateRef\<close>: the body
  handed to \<open>debounce\<close>. \<open>sid\<close> is \<open>sessionIdRef.current\<close> when the body runs. The
  test \<open>data?.id\<close> is true for a row whose id is not 0.
\<close>

definition debouncedSave ::
  "(store_call \<Rightarrow> reply) \<Rightarrow> nat \<Rightarrow> string \<Rightarrow> string \<Rightarrow> store \<Rightarrow> string list \<Rightarrow> saved" where
  "debouncedSave replies now sid text st logged =
     (if replies Select = Rejects then (Some (Rejected Select), st, logged)
      else
        let data = (if replies Select = Resolves then select_single sid st else None)
        in
          (case data of
             Some d \<Rightarrow>
               if row_id d \<noteq> 0 then
                 (case replies Update of
                    Rejects \<Rightarrow> (Some (Rejected Update), st, logged)
                  | ResolvesWithError \<Rightarrow> (None, st, logged)
                  | Resolves \<Rightarrow> (None, update_row (row_id d) text now st, logged))
               else
                 (case replies Insert of
                    Rejects \<Rightarrow> (Some (Rejected Insert), st, logged)
                  | ResolvesWithError \<Rightarrow> (None, st, logged)
                  | Resolves \<Rightarrow> (None, insert_row sid text st, logged))
           | None \<Rightarrow>
               (case replies Insert of
                  Rejects \<Rightarrow> (Some (Rejected Insert), st, logged)
                | ResolvesWithError \<Rightarrow> (None, st, logged)
                | Resolves \<Rightarrow> (None, insert_row sid text st, logged))))"

text \<open>
  Reply plans: every request succeeds; exactly one kind of request rejects; every
  request resolves with an error; exactly one kind of request resolves with an error.
\<close>

definition all_resolve :: "store_call \<Rightarrow> reply" where
  "all_resolve c = Resolves"

definition rejecting :: "store_call \<Rightarrow> store_call \<Rightarrow> reply" where
  "rejecting c d = (if d = c then Rejects else Resolves)"

definition all_error :: "store_call \<Rightarrow> reply" where
  "all_error c = ResolvesWithError"

definition erroring :: "store_call \<Rightarrow> store_call \<Rightarrow> reply" where
  "erroring c d = (if d = c then ResolvesWithError else Resolves)"

text \<open>
  A table as the code means to keep it: \<open>id\<close> is the primary key, handed out from 1
  upwards, and no two rows carry the same session identifier. The second part is not a
  constraint of the table (the session identifier is only indexed); it holds as long as
  every select of \<open>debouncedSave\<close> resolves with its data.
\<close>

definition wf_store :: "store \<Rightarrow> bool" where
  "wf_store st =
     (distinct (map row_id (rows st)) \<and> distinct (map session_id (rows st))
      \<and> 0 < next_id st
      \<and> list_all (\<lambda>r. 0 < row_id r \<and> row_id r < next_id st) (rows st))"

definition empty_store :: store where
  "empty_store = \<lparr>rows = [], next_id = 1\<rparr>"

text \<open>
  The table after the first save of session \<open>abc\<close> with text \<open>Hello\<close> into the empty
  table, and after a second save with text \<open>Hello world\<close> at clock reading 9.
\<close>

definition store_hello :: store where
  "store_hello =
     \<lparr>rows = [\<lparr>row_id = 1, session_id = ''abc'', user_id = ''broadcaster-user'',
               full_transcript_text = ''Hello'', updated_at = None,
               source_language = Some ''auto''\<rparr>],
      next_id = 2\<rparr>"

definition store_hello_world :: store where
  "store_hello_world =
     \<lparr>rows = [\<lparr>row_id = 1, session_id = ''abc'', user_id = ''broadcaster-user'',
               full_transcript_text = ''Hello world'', updated_at = Some 9,
               source_language = Some ''auto''\<rparr>],
      next_id = 2\<rparr>"

text \<open>
  The table when, with the row of session \<open>abc\<close> in place, a save of
  \<open>Hello world\<close> has its select resolve with an error and its insert succeed; and the
  table after one more save, of \<open>Hello world!\<close> at clock reading 11, with every
  request succeeding.
\<close>

definition store_duplicated :: store where
  "store_duplicated =
     \<lparr>rows = [\<lparr>row_id = 1, session_id = ''abc'', user_id = ''broadcaster-user'',
               full_transcript_text = ''Hello'', updated_at = None,
               source_language = Some ''auto''\<rparr>,
              \<lparr>row_id = 2, session_id = ''abc'', user_id = ''broadcaster-user'',
               full_transcript_text = ''Hello world'', updated_at = None,
               source_language = Some ''auto''\<rparr>],
      next_id = 3\<rparr>"

definition store_triplicated :: store where
  "store_triplicated =
     \<lparr>rows = [\<lparr>row_id = 1, session_id = ''abc'', user_id = ''broadcaster-user'',
               full_transcript_text = ''Hello'', updated_at = None,
               source_language = Some ''auto''\<rparr>,
              \<lparr>row_id = 2, session_id = ''abc'', user_id = ''broadcaster-user'',
               full_transcript_text = ''Hello world'', updated_at = None,
               source_language = Some ''auto''\<rparr>,
              \<lparr>row_id = 3, session_id = ''abc'', user_id = ''broadcaster-user'',
               full_transcript_text = ''Hello world!'', updated_at = None,
               source_language = Some ''auto''\<rparr>],
      next_id = 4\<rparr>"

section \<open>Session controller and transcript accumulator: component \<open>Broadcaster\<close>\<close>

datatype AudioSource = microphone | screen_tab

text \<open>
  The closure made by \<open>debounce(func, wait)\<close>: its \<open>wait\<close> and its variable
  \<open>timeout\<close>, the pending timer if any, as the time it is due and the argument \<open>func\<close>
  will get. Times are milliseconds.
\<close>

record debounced =
  wait :: nat
  timeout :: "(nat \<times> string) option"

definition debounce :: "nat \<Rightarrow> debounced" where
  "debounce w = \<lparr>wait = w, timeout = None\<rparr>"

text \<open>
  Calling the closure at time \<open>now\<close>: \<open>clearTimeout(timeout)\<close>, then
  \<open>timeout = setTimeout(() => func(...args), wait)\<close>.
\<close>

definition call_debounced :: "nat \<Rightarrow> string \<Rightarrow> debounced \<Rightarrow> debounced" where
  "call_debounced now arg d = d\<lparr>timeout := Some (now + wait d, arg)\<rparr>"

text \<open>
  The component's state and refs, and \<open>connected\<close>, the connection state it gets from
  \<open>useLiveAPIContext\<close>. \<open>recorderRef\<close> holds the recorder object.
\<close>

record Broadcaster =
  isRecording :: bool
  micVolume :: real
  transcript :: string
  sessionId :: string
  audioSource :: AudioSource
  recorderRef :: "AudioRecorder option"
  transcriptRef :: string
  sessionIdRef :: string
  dbUpdateRef :: "debounced option"
  connected :: bool

text \<open>
  The initial values and the effects that run once on mount (lines 26 to 43 and 82):
  \<open>sid\<close> is what \<open>crypto.randomUUID()\<close> returned.
\<close>

definition mount :: "string \<Rightarrow> Broadcaster" where
  "mount sid =
     \<lparr>isRecording = False, micVolume = 0, transcript = [], sessionId = sid,
      audioSource = microphone, recorderRef = None, transcriptRef = [],
      sessionIdRef = sid, dbUpdateRef = Some (debounce 2000), connected = False\<rparr>"

text \<open>
  Modelled from the spec: \<open>connect\<close> of the LiveAPI context (file
  \<open>contexts/LiveAPIContext\<close>, not among the sources) opens the connection to the remote
  streaming service. Its failure is the call \<open>LiveConnect\<close> of the fault plan.
\<close>

definition connect :: "Broadcaster \<Rightarrow> Broadcaster" where
  "connect b = b\<lparr>connected := True\<rparr>"

text \<open>
  Modelled from the spec: \<open>disconnect\<close> of the LiveAPI context (same file, not among the
  sources) closes the connection.
\<close>

definition disconnect :: "Broadcaster \<Rightarrow> Broadcaster" where
  "disconnect b = b\<lparr>connected := False\<rparr>"

text \<open>\<open>stopBroadcast\<close> (lines 94 to 99).\<close>

definition stopBroadcast ::
  "(api_call \<Rightarrow> bool) \<Rightarrow> Broadcaster \<Rightarrow> browser \<Rightarrow> (Broadcaster \<times> browser) outcome" where
  "stopBroadcast throws b w =
     (case recorderRef b of
        None \<Rightarrow> (None, (disconnect b)\<lparr>isRecording := False, micVolume := 0\<rparr>, w)
      | Some r \<Rightarrow>
          (case stop throws r w of
             (Some e, r', w') \<Rightarrow> (Some e, b\<lparr>recorderRef := Some r'\<rparr>, w')
           | (None, r', w') \<Rightarrow>
               (None,
                (disconnect (b\<lparr>recorderRef := Some r'\<rparr>))
                  \<lparr>isRecording := False, micVolume := 0\<rparr>,
                w')))"

text \<open>
  Lines 146 to 164: connect, mark recording, create and start the recorder; the
  \<open>catch\<close> logs and calls \<open>stopBroadcast\<close>.
\<close>

definition begin_broadcast ::
  "(api_call \<Rightarrow> bool) \<Rightarrow> handle option \<Rightarrow> Broadcaster \<Rightarrow> browser
     \<Rightarrow> (Broadcaster \<times> browser) outcome" where
  "begin_broadcast throws stream_arg b w =
     (if throws LiveConnect
      then stopBroadcast throws b (w\<lparr>console := console w @ [''Failed to start broadcast'']\<rparr>)
      else
        let b1 = (connect b)\<lparr>isRecording := True, recorderRef := Some new_AudioRecorder\<rparr>
        in
          (case start throws stream_arg new_AudioRecorder w of
             (None, r', w') \<Rightarrow> (None, b1\<lparr>recorderRef := Some r'\<rparr>, w')
           | (Some e, r', w') \<Rightarrow>
               stopBroadcast throws (b1\<lparr>recorderRef := Some r'\<rparr>)
                 (w'\<lparr>console := console w' @ [''Failed to start broadcast'']\<rparr>)))"

text \<open>
  How the \<open>getDisplayMedia\<close> prompt ends: the promise rejects with an error, a stream
  without an audio track is shared, or a stream with audio is shared (with the video
  track that \<open>video: true\<close> asks for).
\<close>

datatype display_reply = RejectedWith dom_error | SharedWithoutAudio | Shared

text \<open>A successful \<open>getDisplayMedia\<close>: a new stream with running tracks.\<close>

definition getDisplayMedia :: "browser \<Rightarrow> handle \<times> browser" where
  "getDisplayMedia w =
     (next_handle w,
      w\<lparr>next_handle := Suc (next_handle w),
        live_streams := insert (next_handle w) (live_streams w)\<rparr>)"

text \<open>
  \<open>err.toString()\<close> of an error object, and \<open>String.prototype.includes\<close>.
\<close>

definition toString :: "dom_error \<Rightarrow> string" where
  "toString err =
     (if name err = [] then message err
      else if message err = [] then name err
      else name err @ '': '' @ message err)"

fun string_includes :: "string \<Rightarrow> string \<Rightarrow> bool" where
  "string_includes [] needle = (needle = [])"
| "string_includes (c # cs) needle =
     (take (length needle) (c # cs) = needle \<or> string_includes cs needle)"

text \<open>
  The inner \<open>catch\<close> (lines 131 to 143), which receives whatever the inner \<open>try\<close>
  throws: log; return silently on a \<open>NotAllowedError\<close>; otherwise show one of two
  alerts; return.
\<close>

definition display_catch ::
  "dom_error \<Rightarrow> Broadcaster \<Rightarrow> browser \<Rightarrow> (Broadcaster \<times> browser) outcome" where
  "display_catch err b w =
     (let w1 = w\<lparr>console := console w @ [''Error getting display media:'']\<rparr>
      in if name err = ''NotAllowedError'' then (None, b, w1)
         else if string_includes (toString err) ''permissions policy''
         then (None, b,
               w1\<lparr>alerts := alerts w1 @
                  [''Error: Screen sharing is disabled in this environment. Please ensure '' @
                   [CHR 0x27] @ ''display-capture'' @ [CHR 0x27] @
                   '' permission is allowed.'']\<rparr>)
         else (None, b,
               w1\<lparr>alerts := alerts w1 @
                  [''Failed to start screen sharing: '' @ message err]\<rparr>))"

text \<open>
  \<open>toggleBroadcast\<close> (lines 102 to 166). In the branch for a stream without audio the
  alert comes first and the tracks are stopped after it, inside the inner \<open>try\<close>: a
  \<open>stop()\<close> that throws lands in the inner \<open>catch\<close> and leaves the stream live.
\<close>

definition toggleBroadcast ::
  "(api_call \<Rightarrow> bool) \<Rightarrow> display_reply \<Rightarrow> Broadcaster \<Rightarrow> browser
     \<Rightarrow> (Broadcaster \<times> browser) outcome" where
  "toggleBroadcast throws display b w =
     (if isRecording b then stopBroadcast throws b w
      else if audioSource b = screen_tab then
        (case display of
           RejectedWith err \<Rightarrow> display_catch err b w
         | SharedWithoutAudio \<Rightarrow>
             (let (s, w1) = getDisplayMedia w;
                  w2 = w1\<lparr>alerts := alerts w1 @
                         [''No audio track detected. Please make sure to check '' @
                          [CHR 0x27] @ ''Share tab audio'' @ [CHR 0x27] @
                          '' in the browser dialog.'']\<rparr>
              in if throws StopTracks then display_catch (error_of w2 StopTracks) b w2
                 else (None, b, stop_tracks s w2))
         | Shared \<Rightarrow>
             (let (s, w1) = getDisplayMedia w
              in begin_broadcast throws (Some s) b (w1\<lparr>onended := insert s (onended w1)\<rparr>)))
      else begin_broadcast throws None b w)"

text \<open>
  The \<open>onended\<close> handler of the shared stream's video track (lines 128 to 130), run
  when the browser reports that stream \<open>s\<close> has ended.
\<close>

definition source_ended ::
  "(api_call \<Rightarrow> bool) \<Rightarrow> handle \<Rightarrow> Broadcaster \<Rightarrow> browser \<Rightarrow> (Broadcaster \<times> browser) outcome" where
  "source_ended throws s b w =
     (if s \<in> onended w then stopBroadcast throws b w else (None, b, w))"

text \<open>
  \<open>handleContent\<close> (lines 170 to 184). A part's \<open>text\<close> is absent or a string; the
  content's \<open>modelTurn?.parts\<close> is absent or a list of parts. An empty string is falsy.
\<close>

type_synonym part = "string option"

type_synonym serverContent = "part list option"

definition handle_part :: "nat \<Rightarrow> part \<Rightarrow> Broadcaster \<Rightarrow> Broadcaster" where
  "handle_part now p b =
     (case p of
        None \<Rightarrow> b
      | Some newText \<Rightarrow>
          if newText = [] then b
          else
            let b1 = b\<lparr>transcriptRef := transcriptRef b @ newText\<rparr>;
                b2 = b1\<lparr>transcript := transcriptRef b1\<rparr>
            in (case dbUpdateRef b2 of
                  None \<Rightarrow> b2
                | Some d \<Rightarrow>
                    b2\<lparr>dbUpdateRef := Some (call_debounced now (transcriptRef b2) d)\<rparr>))"

definition handleContent :: "nat \<Rightarrow> serverContent \<Rightarrow> Broadcaster \<Rightarrow> Broadcaster" where
  "handleContent now sc b =
     (case sc of None \<Rightarrow> b | Some parts \<Rightarrow> fold (handle_part now) parts b)"

subsection \<open>The page's event loop\<close>

text \<open>
  The page: the component, the browser, and the invocations of the debounced body
  \<open>debouncedSave\<close> so far, each with the session identifier it read and the text it was
  given.
\<close>

record page =
  component :: Broadcaster
  window :: browser
  saves :: "(string \<times> string) list"

text \<open>What can happen: a click on the broadcast button, a content message from the
  client, the end of a shared stream, or nothing but the passing of time.\<close>

datatype event = Click | Content serverContent | SourceEnded handle | Idle

text \<open>A timer that is due runs before the event that arrives at time \<open>now\<close>.\<close>

definition run_timers :: "nat \<Rightarrow> page \<Rightarrow> page" where
  "run_timers now pg =
     (case dbUpdateRef (component pg) of
        None \<Rightarrow> pg
      | Some d \<Rightarrow>
          (case timeout d of
             None \<Rightarrow> pg
           | Some (due, arg) \<Rightarrow>
               if due \<le> now
               then pg\<lparr>component := (component pg)\<lparr>dbUpdateRef := Some (d\<lparr>timeout := None\<rparr>)\<rparr>,
                       saves := saves pg @ [(sessionIdRef (component pg), arg)]\<rparr>
               else pg))"

text \<open>
  One turn of the loop. An exception that escapes a handler is dropped by the loop; the
  state stays as the handler left it.
\<close>

definition step :: "(api_call \<Rightarrow> bool) \<Rightarrow> display_reply \<Rightarrow> nat \<times> event \<Rightarrow> page \<Rightarrow> page" where
  "step throws display te pg =
     (let pg1 = run_timers (fst te) pg
      in (case snd te of
            Click \<Rightarrow>
              (let res = toggleBroadcast throws display (component pg1) (window pg1)
               in pg1\<lparr>component := fst (snd res), window := snd (snd res)\<rparr>)
          | Content sc \<Rightarrow> pg1\<lparr>component := handleContent (fst te) sc (component pg1)\<rparr>
          | SourceEnded s \<Rightarrow>
              (let res = source_ended throws s (component pg1) (window pg1)
               in pg1\<lparr>component := fst (snd res), window := snd (snd res)\<rparr>)
          | Idle \<Rightarrow> pg1))"

definition run :: "(api_call \<Rightarrow> bool) \<Rightarrow> display_reply \<Rightarrow> (nat \<times> event) list \<Rightarrow> page \<Rightarrow> page" where
  "run throws display evs pg = fold (step throws display) evs pg"

text \<open>The page just after the component has mounted.\<close>

definition fresh_page :: "string \<Rightarrow> browser \<Rightarrow> page" where
  "fresh_page sid w = \<lparr>component = mount sid, window = w, saves = []\<rparr>"

text \<open>One content message per text delta, at the delta's arrival time.\<close>

definition deltas :: "(nat \<times> string) list \<Rightarrow> (nat \<times> event) list" where
  "deltas ds = map (\<lambda>(t, x). (t, Content (Some [Some x]))) ds"

text \<open>
  A burst: the deltas that follow arrive in time order, each less than 2000 ms after
  the one before it (\<open>prev\<close> being the arrival time of the one before the first), and
  none is empty.
\<close>

fun burst :: "nat \<Rightarrow> (nat \<times> string) list \<Rightarrow> bool" where
  "burst prev [] = True"
| "burst prev ((t, x) # ds) = (prev \<le> t \<and> t < prev + 2000 \<and> x \<noteq> [] \<and> burst t ds)"

text \<open>The text of the non-empty parts that a list of events delivers, in order.\<close>

definition part_text :: "part \<Rightarrow> string" where
  "part_text p = (case p of None \<Rightarrow> [] | Some x \<Rightarrow> x)"

definition event_text :: "nat \<times> event \<Rightarrow> string" where
  "event_text te =
     (case snd te of
        Content (Some parts) \<Rightarrow> concat (map part_text parts)
      | _ \<Rightarrow> [])"

definition delivered :: "(nat \<times> event) list \<Rightarrow> string" where
  "delivered evs = concat (map event_text evs)"

text \<open>
  A mounted component with the shared-tab source selected, and the component and browser
  after a click on the broadcast button there, when the user shares a tab with audio and
  every call succeeds: stream 0, context 1, source node 2, processor node 3.
\<close>

definition tab_component :: Broadcaster where
  "tab_component = (mount ''sid-1'')\<lparr>audioSource := screen_tab\<rparr>"

definition sharing_component :: Broadcaster where
  "sharing_component =
     tab_component\<lparr>isRecording := True, connected := True,
       recorderRef := Some started_recorder\<rparr>"

definition sharing_browser :: browser where
  "sharing_browser = started_browser\<lparr>onended := {0}\<rparr>"

section \<open>Properties of the Frame Encoder\<close>

lemma convert_loop_eq:
  "i \<le> length float32 \<Longrightarrow> length int16 = length float32 \<Longrightarrow>
   convert_loop i float32 int16 =
     take i int16 @ map (\<lambda>x. ToInt16 (scaled x)) (drop i float32)"
proof (induction i float32 int16 rule: convert_loop.induct)
  case (1 i float32 int16)
  show ?case
  proof (cases "i < length float32")
    case True
    let ?v = "ToInt16 (scaled (float32 ! i))"
    have "convert_loop i float32 int16 = convert_loop (Suc i) float32 (int16[i := ?v])"
      using True by (subst convert_loop.simps) simp
    also have "\<dots> = take (Suc i) (int16[i := ?v]) @ map (\<lambda>x. ToInt16 (scaled x)) (drop (Suc i) float32)"
      using True "1.prems" by (intro "1.IH") simp_all
    also have "take (Suc i) (int16[i := ?v]) = take i int16 @ [?v]"
      using True "1.prems" by (simp add: take_Suc_conv_app_nth)
    also have "(take i int16 @ [?v]) @ map (\<lambda>x. ToInt16 (scaled x)) (drop (Suc i) float32)
        = take i int16 @ map (\<lambda>x. ToInt16 (scaled x)) (drop i float32)"
      using True by (simp add: Cons_nth_drop_Suc [symmetric])
    finally show ?thesis .
  next
    case False
    then show ?thesis using "1.prems" by (subst convert_loop.simps) simp
  qed
qed

lemma convert_map: "convertFloat32ToInt16 float32 = map (\<lambda>x. ToInt16 (scaled x)) float32"
  by (simp add: convertFloat32ToInt16_def convert_loop_eq)

lemma scaled_Finite:
  "scaled (Finite x) = Finite (let s = max (- 1) (min 1 x) in if s < 0 then s * 32768 else s * 32767)"
  by (auto simp: scaled_def Let_def min_def max_def)

lemma trunc_bounds: "- 32768 \<le> y \<Longrightarrow> y \<le> 32767 \<Longrightarrow> - 32768 \<le> trunc y \<and> trunc y \<le> 32767"
  unfolding trunc_def by (auto simp: le_floor_iff ceiling_le_iff floor_le_iff le_ceiling_iff) 

lemma sint16_of_int: "- 32768 \<le> k \<Longrightarrow> k \<le> 32767 \<Longrightarrow> sint (word_of_int k :: 16 word) = k"
  by (simp add: sint_sbintrunc' signed_take_bit_int_eq_self)


lemma spec_range: "- 32768 \<le> spec_sample x \<and> spec_sample x \<le> 32767"
proof -
  define s where "s = max (- 1) (min 1 x)"
  have s: "- 1 \<le> s" "s \<le> 1" by (simp_all add: s_def)
  define y where "y = (if s < 0 then s * 32768 else s * 32767)"
  have "- 32768 \<le> y \<and> y \<le> 32767" using s by (auto simp: y_def)
  then have "- 32768 \<le> trunc y \<and> trunc y \<le> 32767" by (simp add: trunc_bounds)
  moreover have "spec_sample x = trunc y"
    unfolding spec_sample_def y_def s_def Let_def by (rule refl)
  ultimately show ?thesis by (simp only:)
qed

lemma sample_Finite: "sint (ToInt16 (scaled (Finite x))) = spec_sample x"
proof -
  have "ToInt16 (scaled (Finite x)) = word_of_int (spec_sample x)"
    by (simp add: scaled_Finite spec_sample_def Let_def)
  then show ?thesis using spec_range [of x] by (simp add: sint16_of_int)
qed

text \<open>
  Claim C1. The encoder returns a buffer of the input's length; at every index holding a
  finite sample the stored 16-bit value, read as a signed integer, is the sample clamped
  to \<open>[-1, 1]\<close>, scaled by 32768 when negative and by 32767 otherwise, and truncated
  (no wrap-around happens); every element lies in \<open>[-32768, 32767]\<close>; and the samples
  1, -1 and 0 give 32767, -32768 and 0.
\<close>

theorem convertFloat32ToInt16_spec:
  "length (convertFloat32ToInt16 float32) = length float32
   \<and> (\<forall>i x. i < length float32 \<and> float32 ! i = Finite x
          \<longrightarrow> sint (convertFloat32ToInt16 float32 ! i) = spec_sample x)
   \<and> (\<forall>i < length float32. - 32768 \<le> sint (convertFloat32ToInt16 float32 ! i)
          \<and> sint (convertFloat32ToInt16 float32 ! i) \<le> 32767)
   \<and> map sint (convertFloat32ToInt16 [Finite 1, Finite (- 1), Finite 0]) = [32767, - 32768, 0]"
proof (intro conjI allI impI)
  show "length (convertFloat32ToInt16 float32) = length float32" by (simp add: convert_map)
next
  fix i x assume "i < length float32 \<and> float32 ! i = Finite x"
  then show "sint (convertFloat32ToInt16 float32 ! i) = spec_sample x"
    by (simp add: convert_map sample_Finite)
next
  fix i assume "i < length float32"
  have "- 32768 \<le> sint (convertFloat32ToInt16 float32 ! i)"
    using sint_ge [of "convertFloat32ToInt16 float32 ! i"] by simp
  then show "- 32768 \<le> sint (convertFloat32ToInt16 float32 ! i)" .
next
  fix i assume "i < length float32"
  show "sint (convertFloat32ToInt16 float32 ! i) \<le> 32767"
    using sint_lt [of "convertFloat32ToInt16 float32 ! i"] by simp
next
  show "map sint (convertFloat32ToInt16 [Finite 1, Finite (- 1), Finite 0]) = [32767, - 32768, 0]"
    by (simp add: convert_map scaled_def trunc_def)
qed

theorem convertFloat32ToInt16_spec_witness:
  "(1 :: nat) < length [Finite (1/2), Finite (- 3)]
   \<and> [Finite (1/2), Finite (- 3)] ! 1 = Finite (- 3)
   \<and> [Finite (1/2), Finite (- 3)] ! 0 = Finite (1/2)
   \<and> length (convertFloat32ToInt16 [Finite (1/2), Finite (- 3)]) = 2
   \<and> sint (convertFloat32ToInt16 [Finite (1/2), Finite (- 3)] ! 0) = spec_sample (1/2)
   \<and> sint (convertFloat32ToInt16 [Finite (1/2), Finite (- 3)] ! 1) = spec_sample (- 3)
   \<and> spec_sample (1/2) = 16383 \<and> spec_sample (- 3) = - 32768
   \<and> - 32768 \<le> sint (convertFloat32ToInt16 [Finite (1/2), Finite (- 3)] ! 1)
   \<and> sint (convertFloat32ToInt16 [Finite (1/2), Finite (- 3)] ! 1) \<le> 32767"
proof -
  let ?buf = "[Finite (1/2), Finite (- 3)]"
  from convertFloat32ToInt16_spec [of ?buf]
  have len: "length (convertFloat32ToInt16 ?buf) = length ?buf"
    and at: "\<And>i x. i < length ?buf \<Longrightarrow> ?buf ! i = Finite x \<Longrightarrow>
               sint (convertFloat32ToInt16 ?buf ! i) = spec_sample x"
    and range: "\<And>i. i < length ?buf \<Longrightarrow>
               - 32768 \<le> sint (convertFloat32ToInt16 ?buf ! i)
               \<and> sint (convertFloat32ToInt16 ?buf ! i) \<le> 32767"
    by blast+
  have v: "spec_sample (1/2) = 16383" "spec_sample (- 3) = - 32768"
    by (simp_all add: spec_sample_def trunc_def)
  from len at [of 0 "1/2"] at [of 1 "- 3"] range [of 1] v
  show ?thesis by simp
qed

text \<open>
  Claim C10. The conversion is defined on every sample, finite or not: the output has
  the input's length, a NaN sample is stored as 0, positive infinity as 32767 and
  negative infinity as -32768, wherever in the buffer they stand.
\<close>

theorem convertFloat32ToInt16_total:
  "map sint (convertFloat32ToInt16 [NaN, Infinity, NegInfinity]) = [0, 32767, - 32768]
   \<and> length (convertFloat32ToInt16 float32) = length float32
   \<and> convertFloat32ToInt16 (xs @ NaN # ys) ! length xs = 0
   \<and> sint (convertFloat32ToInt16 (xs @ Infinity # ys) ! length xs) = 32767
   \<and> sint (convertFloat32ToInt16 (xs @ NegInfinity # ys) ! length xs) = - 32768"
  by (simp add: convert_map scaled_def trunc_def nth_append)

section \<open>Properties of the Audio Capture Engine\<close>

lemmas stop_defs = stop_def and_then_def stop_processor_def stop_source_def stop_stream_def
  stop_context_def disconnect_node_def stop_tracks_def close_context_def

lemmas start_defs = start_def rethrow_def getUserMedia_def newAudioContext_def
  createNode_def connect_node_def

lemma start_reaches_started:
  "start never None new_AudioRecorder empty_browser = (None, started_recorder, started_browser)"
  by (simp add: start_defs never_def new_AudioRecorder_def empty_browser_def
      started_recorder_def started_browser_def numeral_2_eq_2 numeral_3_eq_3)

lemma stop_new: "stop throws new_AudioRecorder w = (None, new_AudioRecorder, w)"
  by (simp add: stop_defs new_AudioRecorder_def)

lemma stop_returns_null:
  "stop throws r w = (None, r', w') \<Longrightarrow> r' = new_AudioRecorder"
  by (cases r) (auto simp: stop_defs new_AudioRecorder_def split: option.splits if_splits)

lemma stop_returns_trace:
  "stop throws r w = (None, r', w') \<Longrightarrow>
   released w' = released w @ release_sequence r \<and> console w' = console w"
  by (cases r) (auto simp: stop_defs release_sequence_def split: option.splits if_splits)

lemma stop_returns_released:
  "stop throws r w = (None, r', w') \<Longrightarrow> nothing_engaged r w'"
  by (cases r) (auto simp: stop_defs nothing_engaged_def split: option.splits if_splits)

lemma stop_no_throw:
  "no_release_throws throws \<Longrightarrow> fst (stop throws r w) = None"
  by (cases r) (auto simp: stop_defs no_release_throws_def split: option.splits)

lemma stop_throws_first:
  "throws DisconnectProcessor \<Longrightarrow> processor r = Some p \<Longrightarrow>
   stop throws r w = (Some (Thrown DisconnectProcessor), r, w)"
  by (simp add: stop_defs)

lemma stop_aborts:
  "stop throws r w = (Some e, r', w') \<Longrightarrow>
   console w' = console w \<and> audioContext r' = audioContext r
   \<and> open_contexts w' = open_contexts w \<and> (\<exists>c. e = Thrown c \<and> throws c)"
  by (cases r) (auto simp: stop_defs split: option.splits if_splits)

lemma stop_complete:
  assumes "no_release_throws throws"
  shows "\<exists>w'. stop throws r w = (None, new_AudioRecorder, w')
           \<and> released w' = released w @ release_sequence r
           \<and> console w' = console w \<and> nothing_engaged r w'"
proof -
  obtain e r' w' where res: "stop throws r w = (e, r', w')"
    by (cases "stop throws r w") auto
  with stop_no_throw [OF assms, of r w] have e: "e = None" by simp
  from res e have "r' = new_AudioRecorder"
    by (simp add: stop_returns_null)
  with res e stop_returns_trace [of throws r w r' w'] stop_returns_released [of throws r w r' w']
  show ?thesis by simp
qed

lemma start_acquire_fails:
  "throws GetUserMedia \<Longrightarrow>
   start throws None r w =
     (Some (Thrown GetUserMedia), r,
      w\<lparr>console := console w @ [''Error starting recorder:'']\<rparr>)"
  by (simp add: start_defs)

lemma start_fails_logged:
  "start throws a r w = (Some e, r', w') \<Longrightarrow>
   console w' = console w @ [''Error starting recorder:''] \<and> (\<exists>c. e = Thrown c \<and> throws c)"
  by (auto simp: start_defs Let_def split: if_splits option.splits prod.splits)

lemma start_fails_later:
  "start throws a r w = (Some e, r', w') \<Longrightarrow> e \<noteq> Thrown GetUserMedia \<Longrightarrow> stream r' \<noteq> None"
  by (auto simp: start_defs Let_def split: if_splits option.splits prod.splits)

text \<open>
  Claim C4, as stated, fails: when the microphone is acquired and creating the audio
  context then throws, \<open>start\<close> rethrows with the stream still stored in the recorder and
  its tracks still running, so the state is not the pre-start state.
\<close>

theorem start_failure_keeps_stream:
  "start (only NewAudioContext) None new_AudioRecorder empty_browser =
     (Some (Thrown NewAudioContext),
      new_AudioRecorder\<lparr>stream := Some 0\<rparr>,
      empty_browser\<lparr>next_handle := 1, live_streams := {0},
        console := [''Error starting recorder:'']\<rparr>)
   \<and> new_AudioRecorder\<lparr>stream := Some 0\<rparr> \<noteq> new_AudioRecorder
   \<and> \<not> nothing_engaged (new_AudioRecorder\<lparr>stream := Some 0\<rparr>)
         (empty_browser\<lparr>next_handle := 1, live_streams := {0},
            console := [''Error starting recorder:'']\<rparr>)"
  by (simp add: start_defs only_def new_AudioRecorder_def empty_browser_def
      nothing_engaged_def)

text \<open>
  Claim C4, amended. A failing \<open>start\<close> logs and rethrows the exception of the call that
  failed. When that call is the acquisition of the microphone, the recorder and the
  browser's audio state are as before the call. When it is a later call, the stream stays
  stored in the recorder; a following \<open>stop\<close> whose release calls do not throw then nulls
  every field and leaves nothing of the recorder's engaged.
\<close>

theorem start_failure:
  "(throws GetUserMedia \<longrightarrow>
      start throws None r w =
        (Some (Thrown GetUserMedia), r,
         w\<lparr>console := console w @ [''Error starting recorder:'']\<rparr>))
   \<and> (start throws a r w = (Some e, r', w') \<longrightarrow>
        console w' = console w @ [''Error starting recorder:'']
        \<and> (\<exists>c. e = Thrown c \<and> throws c)
        \<and> (e \<noteq> Thrown GetUserMedia \<longrightarrow> stream r' \<noteq> None)
        \<and> (no_release_throws throws \<longrightarrow>
             (\<exists>w''. stop throws r' w' = (None, new_AudioRecorder, w'')
                \<and> nothing_engaged r' w'')))"
proof (intro conjI impI)
  assume "throws GetUserMedia"
  then show "start throws None r w =
      (Some (Thrown GetUserMedia), r, w\<lparr>console := console w @ [''Error starting recorder:'']\<rparr>)"
    by (rule start_acquire_fails)
next
  assume "start throws a r w = (Some e, r', w')"
  then show "console w' = console w @ [''Error starting recorder:'']"
    by (simp add: start_fails_logged)
next
  assume "start throws a r w = (Some e, r', w')"
  then show "\<exists>c. e = Thrown c \<and> throws c"
    by (simp add: start_fails_logged)
next
  assume "start throws a r w = (Some e, r', w')" and "e \<noteq> Thrown GetUserMedia"
  then show "stream r' \<noteq> None"
    by (rule start_fails_later)
next
  assume "no_release_throws throws"
  from stop_complete [OF this, of r' w']
  show "\<exists>w''. stop throws r' w' = (None, new_AudioRecorder, w'') \<and> nothing_engaged r' w''"
    by blast
qed

theorem start_failure_witness:
  "only GetUserMedia GetUserMedia
   \<and> start (only GetUserMedia) None new_AudioRecorder empty_browser =
       (Some (Thrown GetUserMedia), new_AudioRecorder,
        empty_browser\<lparr>console := [''Error starting recorder:'']\<rparr>)
   \<and> no_release_throws (only NewAudioContext)
   \<and> Thrown NewAudioContext \<noteq> Thrown GetUserMedia
   \<and> stream (new_AudioRecorder\<lparr>stream := Some 0\<rparr>) \<noteq> None
   \<and> (\<exists>w''. stop (only NewAudioContext) (new_AudioRecorder\<lparr>stream := Some 0\<rparr>)
          (empty_browser\<lparr>next_handle := 1, live_streams := {0},
             console := [''Error starting recorder:'']\<rparr>)
        = (None, new_AudioRecorder, w'')
        \<and> nothing_engaged (new_AudioRecorder\<lparr>stream := Some 0\<rparr>) w'')"
proof -
  have run: "start (only NewAudioContext) None new_AudioRecorder empty_browser =
     (Some (Thrown NewAudioContext), new_AudioRecorder\<lparr>stream := Some 0\<rparr>,
      empty_browser\<lparr>next_handle := 1, live_streams := {0},
        console := [''Error starting recorder:'']\<rparr>)"
    by (simp add: start_defs only_def new_AudioRecorder_def empty_browser_def)
  have quiet: "no_release_throws (only NewAudioContext)"
    by (simp add: no_release_throws_def only_def)
  have first: "only GetUserMedia GetUserMedia"
    by (simp add: only_def)
  from start_failure [of "only GetUserMedia" new_AudioRecorder empty_browser] first
  have "start (only GetUserMedia) None new_AudioRecorder empty_browser =
       (Some (Thrown GetUserMedia), new_AudioRecorder,
        empty_browser\<lparr>console := [''Error starting recorder:'']\<rparr>)"
    by (simp add: empty_browser_def)
  moreover
  from start_failure [of "only NewAudioContext" new_AudioRecorder empty_browser None
      "Thrown NewAudioContext" "new_AudioRecorder\<lparr>stream := Some 0\<rparr>"
      "empty_browser\<lparr>next_handle := 1, live_streams := {0},
        console := [''Error starting recorder:'']\<rparr>"] run quiet
  have "stream (new_AudioRecorder\<lparr>stream := Some 0\<rparr>) \<noteq> None
     \<and> (\<exists>w''. stop (only NewAudioContext) (new_AudioRecorder\<lparr>stream := Some 0\<rparr>)
          (empty_browser\<lparr>next_handle := 1, live_streams := {0},
             console := [''Error starting recorder:'']\<rparr>)
        = (None, new_AudioRecorder, w'')
        \<and> nothing_engaged (new_AudioRecorder\<lparr>stream := Some 0\<rparr>) w'')"
    by simp
  ultimately show ?thesis using first quiet by simp
qed

text \<open>
  Claim C6, as stated, fails: on a started recorder, when disconnecting the processor
  node throws, \<open>stop\<close> throws that exception at once. No later teardown step runs (the
  release trace stays empty, the stream's tracks stay live, the context stays open, every
  field stays set) and nothing is logged.
\<close>

theorem stop_aborts_on_failed_release:
  "stop (only DisconnectProcessor) started_recorder started_browser =
     (Some (Thrown DisconnectProcessor), started_recorder, started_browser)
   \<and> released started_browser = [] \<and> console started_browser = []
   \<and> 0 \<in> live_streams started_browser \<and> 1 \<in> open_contexts started_browser
   \<and> stream started_recorder = Some 0 \<and> audioContext started_recorder = Some 1"
  by (simp add: stop_defs only_def started_recorder_def started_browser_def)

text \<open>
  Claim C6, amended. From every state of the recorder, when no release call throws,
  \<open>stop\<close> returns with every field null, having made exactly these calls in this order,
  each only for a field that was set: disconnect the processor node, disconnect the
  source node, stop the stream's tracks, close the audio context; nothing of the
  recorder's is left engaged and nothing is logged. There is no failure handling: when a
  release call throws, \<open>stop\<close> throws that exception without logging, and the audio
  context, the last step, is neither closed nor nulled.
\<close>

theorem stop_teardown:
  "(no_release_throws throws \<longrightarrow>
      (\<exists>w'. stop throws r w = (None, new_AudioRecorder, w')
         \<and> released w' = released w @ release_sequence r
         \<and> console w' = console w \<and> nothing_engaged r w'))
   \<and> (stop throws r w = (Some e, r', w') \<longrightarrow>
        console w' = console w \<and> audioContext r' = audioContext r
        \<and> open_contexts w' = open_contexts w \<and> (\<exists>c. e = Thrown c \<and> throws c))"
  using stop_complete [of throws r w] stop_aborts [of throws r w e r' w'] by blast

theorem stop_teardown_witness:
  "no_release_throws never
   \<and> (\<exists>w'. stop never started_recorder started_browser = (None, new_AudioRecorder, w')
        \<and> released w' =
            [(DisconnectProcessor, 3), (DisconnectSource, 2), (StopTracks, 0), (CloseContext, 1)]
        \<and> console w' = [] \<and> nothing_engaged started_recorder w')
   \<and> stop (only StopTracks) started_recorder started_browser =
       (Some (Thrown StopTracks), started_recorder\<lparr>source := None, processor := None\<rparr>,
        started_browser\<lparr>connections := {},
          released := [(DisconnectProcessor, 3), (DisconnectSource, 2)]\<rparr>)
   \<and> audioContext (started_recorder\<lparr>source := None, processor := None\<rparr>) = Some 1
   \<and> open_contexts (started_browser\<lparr>connections := {},
          released := [(DisconnectProcessor, 3), (DisconnectSource, 2)]\<rparr>) = {1}"
proof -
  have quiet: "no_release_throws never"
    by (simp add: no_release_throws_def never_def)
  have run: "stop (only StopTracks) started_recorder started_browser =
       (Some (Thrown StopTracks), started_recorder\<lparr>source := None, processor := None\<rparr>,
        started_browser\<lparr>connections := {},
          released := [(DisconnectProcessor, 3), (DisconnectSource, 2)]\<rparr>)"
    by (auto simp: stop_defs only_def started_recorder_def started_browser_def)
  have seq: "release_sequence started_recorder =
      [(DisconnectProcessor, 3), (DisconnectSource, 2), (StopTracks, 0), (CloseContext, 1)]"
    by (simp add: release_sequence_def started_recorder_def)
  from stop_teardown [of never started_recorder started_browser] quiet seq
  have "\<exists>w'. stop never started_recorder started_browser = (None, new_AudioRecorder, w')
        \<and> released w' =
            [(DisconnectProcessor, 3), (DisconnectSource, 2), (StopTracks, 0), (CloseContext, 1)]
        \<and> console w' = [] \<and> nothing_engaged started_recorder w'"
    by (simp add: started_browser_def)
  moreover
  from stop_teardown [of "only StopTracks" started_recorder started_browser
      "Thrown StopTracks" "started_recorder\<lparr>source := None, processor := None\<rparr>"
      "started_browser\<lparr>connections := {},
          released := [(DisconnectProcessor, 3), (DisconnectSource, 2)]\<rparr>"] run
  have "audioContext (started_recorder\<lparr>source := None, processor := None\<rparr>) = Some 1
   \<and> open_contexts (started_browser\<lparr>connections := {},
          released := [(DisconnectProcessor, 3), (DisconnectSource, 2)]\<rparr>) = {1}"
    by (simp add: started_recorder_def started_browser_def)
  ultimately show ?thesis using quiet run by simp
qed

text \<open>
  Claim C9. \<open>stop\<close> before any \<open>start\<close> returns without error and changes nothing.
  \<open>stop\<close> returns without error whenever no release call throws. Whenever \<open>stop\<close>
  returns, every field is null, the stream, context and nodes the recorder held are
  released, and a second \<open>stop\<close> returns without error and changes nothing.
\<close>

theorem stop_idempotent:
  "stop throws new_AudioRecorder w = (None, new_AudioRecorder, w)
   \<and> (no_release_throws throws \<longrightarrow> fst (stop throws r w) = None)
   \<and> (stop throws r w = (None, r', w') \<longrightarrow>
        r' = new_AudioRecorder \<and> nothing_engaged r w'
        \<and> stop throws r' w' = (None, r', w'))"
proof (intro conjI impI)
  show "stop throws new_AudioRecorder w = (None, new_AudioRecorder, w)"
    by (rule stop_new)
next
  assume "no_release_throws throws"
  then show "fst (stop throws r w) = None"
    by (rule stop_no_throw)
next
  assume "stop throws r w = (None, r', w')"
  then show "r' = new_AudioRecorder"
    by (rule stop_returns_null)
next
  assume "stop throws r w = (None, r', w')"
  then show "nothing_engaged r w'"
    by (rule stop_returns_released)
next
  assume "stop throws r w = (None, r', w')"
  then have "r' = new_AudioRecorder"
    by (rule stop_returns_null)
  then show "stop throws r' w' = (None, r', w')"
    by (simp add: stop_new)
qed

theorem stop_idempotent_witness:
  "no_release_throws never
   \<and> fst (stop never started_recorder started_browser) = None
   \<and> stop never started_recorder started_browser =
       (None, new_AudioRecorder,
        started_browser\<lparr>live_streams := {}, open_contexts := {}, connections := {},
          released := [(DisconnectProcessor, 3), (DisconnectSource, 2), (StopTracks, 0),
                       (CloseContext, 1)]\<rparr>)
   \<and> nothing_engaged started_recorder
        (started_browser\<lparr>live_streams := {}, open_contexts := {}, connections := {},
          released := [(DisconnectProcessor, 3), (DisconnectSource, 2), (StopTracks, 0),
                       (CloseContext, 1)]\<rparr>)
   \<and> stop never new_AudioRecorder
        (started_browser\<lparr>live_streams := {}, open_contexts := {}, connections := {},
          released := [(DisconnectProcessor, 3), (DisconnectSource, 2), (StopTracks, 0),
                       (CloseContext, 1)]\<rparr>)
      = (None, new_AudioRecorder,
         started_browser\<lparr>live_streams := {}, open_contexts := {}, connections := {},
          released := [(DisconnectProcessor, 3), (DisconnectSource, 2), (StopTracks, 0),
                       (CloseContext, 1)]\<rparr>)"
proof -
  have quiet: "no_release_throws never"
    by (simp add: no_release_throws_def never_def)
  have run: "stop never started_recorder started_browser =
       (None, new_AudioRecorder,
        started_browser\<lparr>live_streams := {}, open_contexts := {}, connections := {},
          released := [(DisconnectProcessor, 3), (DisconnectSource, 2), (StopTracks, 0),
                       (CloseContext, 1)]\<rparr>)"
    by (auto simp: stop_defs never_def started_recorder_def started_browser_def
        new_AudioRecorder_def)
  from stop_idempotent [of never started_browser started_recorder new_AudioRecorder
      "started_browser\<lparr>live_streams := {}, open_contexts := {}, connections := {},
          released := [(DisconnectProcessor, 3), (DisconnectSource, 2), (StopTracks, 0),
                       (CloseContext, 1)]\<rparr>"] quiet run
  show ?thesis by simp
qed

text \<open>
  Two facts behind the amended claims, for every state: a throwing release call whose
  field is set makes \<open>stop\<close> throw; and after a \<open>start\<close> that failed past the
  acquisition, the stored stream is the one supplied or acquired, an acquired one still
  having its tracks running.
\<close>

lemma stop_throws_when_reached:
  assumes "(throws DisconnectProcessor \<and> processor r \<noteq> None)
    \<or> (throws DisconnectSource \<and> source r \<noteq> None)
    \<or> (throws StopTracks \<and> stream r \<noteq> None)"
  shows "fst (stop throws r w) \<noteq> None"
  using assms by (cases r) (auto simp: stop_defs split: option.splits)

lemma start_later_failure_stream:
  assumes "start throws a r w = (Some e, r', w')" and "e \<noteq> Thrown GetUserMedia"
  shows "stream r' = Some (case a of Some s \<Rightarrow> s | None \<Rightarrow> next_handle w)
     \<and> (a = None \<longrightarrow> next_handle w \<in> live_streams w')"
  using assms
  by (auto simp: start_defs Let_def split: if_splits option.splits prod.splits)

section \<open>Properties of the persister\<close>

lemma filter_key_single:
  "distinct (map f xs) \<Longrightarrow> x \<in> set xs \<Longrightarrow> filter (\<lambda>r. f r = f x) xs = [x]"
proof (induction xs)
  case Nil
  then show ?case by simp
next
  case (Cons y ys)
  show ?case
  proof (cases "y = x")
    case True
    from Cons.prems True have "f x \<notin> f ` set ys" by simp
    then have "\<forall>r \<in> set ys. f r \<noteq> f x" by (metis imageI)
    then have "filter (\<lambda>r. f r = f x) ys = []" by (simp add: filter_empty_conv)
    with True show ?thesis by simp
  next
    case False
    with Cons.prems have "x \<in> set ys" and "f y \<noteq> f x" by auto
    with Cons show ?thesis by simp
  qed
qed

lemma select_single_present:
  assumes "wf_store st" and "r0 \<in> set (rows st)"
  shows "select_single (session_id r0) st = Some r0"
proof -
  from assms have "filter (\<lambda>r. session_id r = session_id r0) (rows st) = [r0]"
    by (simp add: wf_store_def filter_key_single)
  then show ?thesis by (simp add: select_single_def)
qed

lemma select_single_absent:
  assumes "\<forall>r \<in> set (rows st). session_id r \<noteq> sid"
  shows "select_single sid st = None"
proof -
  from assms have "filter (\<lambda>r. session_id r = sid) (rows st) = []"
    by (simp add: filter_empty_conv)
  then show ?thesis by (simp add: select_single_def)
qed

lemma update_row_by_key:
  assumes "wf_store st" and "r0 \<in> set (rows st)"
  shows "update_row (row_id r0) text now st =
     st\<lparr>rows := map (\<lambda>r. if r = r0
                             then r0\<lparr>full_transcript_text := text, updated_at := Some now\<rparr>
                             else r) (rows st)\<rparr>"
proof -
  from assms(1) have "inj_on row_id (set (rows st))"
    by (simp add: wf_store_def distinct_map)
  with assms(2) have "\<forall>r \<in> set (rows st). (row_id r = row_id r0) = (r = r0)"
    by (auto dest: inj_onD)
  then have "map (\<lambda>r. if row_id r = row_id r0
                       then r\<lparr>full_transcript_text := text, updated_at := Some now\<rparr>
                       else r) (rows st)
           = map (\<lambda>r. if r = r0
                       then r0\<lparr>full_transcript_text := text, updated_at := Some now\<rparr>
                       else r) (rows st)"
    by (intro map_cong) auto
  then show ?thesis by (simp add: update_row_def)
qed

lemma row_id_positive: "wf_store st \<Longrightarrow> r \<in> set (rows st) \<Longrightarrow> row_id r \<noteq> 0"
  by (auto simp: wf_store_def list_all_iff)

lemma debouncedSave_existing:
  assumes "wf_store st" and "r0 \<in> set (rows st)"
    and "replies Select = Resolves" and "replies Update = Resolves"
  shows "debouncedSave replies now (session_id r0) text st logged =
     (None,
      st\<lparr>rows := map (\<lambda>r. if r = r0
                              then r0\<lparr>full_transcript_text := text, updated_at := Some now\<rparr>
                              else r) (rows st)\<rparr>,
      logged)"
  using assms
  by (simp add: debouncedSave_def select_single_present row_id_positive update_row_by_key)

lemma debouncedSave_missing:
  assumes "\<forall>r \<in> set (rows st). session_id r \<noteq> sid"
    and "replies Select = Resolves" and "replies Insert = Resolves"
  shows "debouncedSave replies now sid text st logged = (None, insert_row sid text st, logged)"
  using assms by (simp add: debouncedSave_def select_single_absent)

lemma debouncedSave_never_logs:
  "snd (snd (debouncedSave replies now sid text st logged)) = logged"
  by (simp add: debouncedSave_def Let_def split: option.splits reply.splits)

text \<open>
  The intended behaviour, which holds while ids are distinct, no two rows share a session
  identifier and the store's requests succeed: a row that exists for the session
  identifier gets its text and timestamp set, with its other columns and every other row
  as they were and no row added; when no row exists, exactly one row is appended, with
  the session identifier, the text, the owner \<open>broadcaster-user\<close> and the language
  marker \<open>auto\<close>, which only this insert writes.
\<close>

lemma debouncedSave_upsert:
  assumes "wf_store st"
    and "replies Select = Resolves" and "replies Update = Resolves"
    and "replies Insert = Resolves"
  shows "(\<forall>r0 \<in> set (rows st). session_id r0 = sid \<longrightarrow>
            debouncedSave replies now sid text st logged =
              (None,
               st\<lparr>rows := map (\<lambda>r. if r = r0
                     then r0\<lparr>full_transcript_text := text, updated_at := Some now\<rparr>
                     else r) (rows st)\<rparr>,
               logged))
       \<and> ((\<forall>r \<in> set (rows st). session_id r \<noteq> sid) \<longrightarrow>
            debouncedSave replies now sid text st logged =
              (None,
               st\<lparr>rows := rows st @
                      [\<lparr>row_id = next_id st, session_id = sid,
                        user_id = ''broadcaster-user'', full_transcript_text = text,
                        updated_at = None, source_language = Some ''auto''\<rparr>],
                  next_id := Suc (next_id st)\<rparr>,
               logged))"
proof (intro conjI ballI impI)
  fix r0 assume "r0 \<in> set (rows st)" and "session_id r0 = sid"
  with debouncedSave_existing [OF assms(1) _ assms(2,3), of r0 now "text" logged]
  show "debouncedSave replies now sid text st logged =
      (None,
       st\<lparr>rows := map (\<lambda>r. if r = r0
             then r0\<lparr>full_transcript_text := text, updated_at := Some now\<rparr>
             else r) (rows st)\<rparr>,
       logged)"
    by simp
next
  assume "\<forall>r \<in> set (rows st). session_id r \<noteq> sid"
  from debouncedSave_missing [OF this assms(2,4), of now "text" logged]
  show "debouncedSave replies now sid text st logged =
      (None,
       st\<lparr>rows := rows st @
              [\<lparr>row_id = next_id st, session_id = sid,
                user_id = ''broadcaster-user'', full_transcript_text = text,
                updated_at = None, source_language = Some ''auto''\<rparr>],
          next_id := Suc (next_id st)\<rparr>,
       logged)"
    by (simp add: insert_row_def)
qed

lemma debouncedSave_upsert_scenario:
  "wf_store empty_store \<and> wf_store store_hello
   \<and> all_resolve Select = Resolves \<and> all_resolve Update = Resolves
   \<and> all_resolve Insert = Resolves
   \<and> debouncedSave all_resolve 7 ''abc'' ''Hello'' empty_store [] = (None, store_hello, [])
   \<and> debouncedSave all_resolve 9 ''abc'' ''Hello world'' store_hello [] =
       (None, store_hello_world, [])"
proof -
  have wf0: "wf_store empty_store"
    by (simp add: wf_store_def empty_store_def)
  have wf1: "wf_store store_hello"
    by (simp add: wf_store_def store_hello_def)
  have ok: "all_resolve Select = Resolves" "all_resolve Update = Resolves"
    "all_resolve Insert = Resolves"
    by (simp_all add: all_resolve_def)
  from debouncedSave_upsert [OF wf0 ok, of "''abc''" 7 "''Hello''" "[]"]
  have first: "debouncedSave all_resolve 7 ''abc'' ''Hello'' empty_store [] =
      (None, store_hello, [])"
    by (simp add: empty_store_def store_hello_def)
  from debouncedSave_upsert [OF wf1 ok, of "''abc''" 9 "''Hello world''" "[]"]
  have second: "debouncedSave all_resolve 9 ''abc'' ''Hello world'' store_hello [] =
      (None, store_hello_world, [])"
    by (simp add: store_hello_def store_hello_world_def)
  from wf0 wf1 ok first second show ?thesis by simp
qed

lemma debouncedSave_keeps_constraints:
  assumes "wf_store st" and "replies Select = Resolves"
  shows "wf_store (fst (snd (debouncedSave replies now sid text st logged)))"
proof (cases "\<exists>r0 \<in> set (rows st). session_id r0 = sid")
  case True
  then obtain r0 where r0: "r0 \<in> set (rows st)" "session_id r0 = sid" by blast
  have sel: "select_single sid st = Some r0"
    using select_single_present [OF assms(1) r0(1)] r0(2) by simp
  have keys: "map row_id (rows (update_row (row_id r0) text now st)) = map row_id (rows st)"
    "map session_id (rows (update_row (row_id r0) text now st)) = map session_id (rows st)"
    by (simp_all add: update_row_def)
  have "wf_store (update_row (row_id r0) text now st)"
    unfolding wf_store_def keys using assms(1)
    by (auto simp: wf_store_def update_row_def list_all_iff)
  with assms sel r0 show ?thesis
    by (simp add: debouncedSave_def row_id_positive split: reply.splits)
next
  case False
  then have none: "\<forall>r \<in> set (rows st). session_id r \<noteq> sid" by blast
  have "wf_store (insert_row sid text st)"
    using assms(1) none unfolding wf_store_def insert_row_def
    by (auto simp: list_all_iff)
  with assms none show ?thesis
    by (simp add: debouncedSave_def select_single_absent split: reply.splits)
qed

text \<open>
  Claim C3 on the code. With the row of session \<open>abc\<close> in the table, a save whose
  select resolves with an error (no data) takes the branch for "no row": it inserts a
  second row for \<open>abc\<close> and leaves the existing row's text and timestamp as they were.
  From then on \<open>single()\<close> finds two rows and yields no data, so a save whose requests
  all succeed inserts a third row and updates none. The first table is the one that
  \<open>debouncedSave\<close> itself produced by the first save of the session.
\<close>

theorem debouncedSave_inserts_duplicate:
  "debouncedSave all_resolve 7 ''abc'' ''Hello'' empty_store [] = (None, store_hello, [])
   \<and> debouncedSave (erroring Select) 9 ''abc'' ''Hello world'' store_hello [] =
       (None, store_duplicated, [])
   \<and> debouncedSave all_resolve 11 ''abc'' ''Hello world!'' store_duplicated [] =
       (None, store_triplicated, [])
   \<and> length (rows store_hello) = 1 \<and> length (rows store_duplicated) = 2
   \<and> length (rows store_triplicated) = 3
   \<and> map session_id (rows store_triplicated) = [''abc'', ''abc'', ''abc'']
   \<and> map full_transcript_text (rows store_triplicated) =
       [''Hello'', ''Hello world'', ''Hello world!'']"
  by (simp add: debouncedSave_def select_single_def insert_row_def all_resolve_def
      erroring_def empty_store_def store_hello_def store_duplicated_def
      store_triplicated_def)

lemma saveToDb_never_rejects: "fst (saveToDb replies now sid fullText st logged) = None"
  by (simp add: saveToDb_def split: reply.splits)

text \<open>
  Claim C5 on the code. \<open>debouncedSave\<close>, the function that runs, has no
  \<open>try\<close>/\<open>catch\<close> and never logs. When the select request rejects, the exception leaves
  \<open>debouncedSave\<close> with nothing written to the console; when it resolves with an error,
  the error is dropped, equally unlogged, and an insert is attempted. The never-called
  \<open>saveToDb\<close> is the function that catches a rejecting request and logs it.
\<close>

theorem debouncedSave_failure_not_logged:
  "debouncedSave (rejecting Select) 7 ''abc'' ''Hello'' store_hello [] =
     (Some (Rejected Select), store_hello, [])
   \<and> debouncedSave (rejecting Update) 7 ''abc'' ''Hello'' store_hello [] =
     (Some (Rejected Update), store_hello, [])
   \<and> snd (snd (debouncedSave all_error 7 ''abc'' ''Hello'' store_hello [])) = []
   \<and> saveToDb (rejecting Upsert) 7 ''abc'' ''Hello'' store_hello [] =
     (None, store_hello, [''DB Save Error''])"
  by (simp add: debouncedSave_def saveToDb_def rejecting_def all_error_def
      select_single_def store_hello_def)

section \<open>Properties of the transcript accumulator and the debounce\<close>

lemma handle_delta:
  assumes "x \<noteq> []" and "dbUpdateRef b = Some d"
  shows "handleContent t (Some [Some x]) b =
     b\<lparr>transcriptRef := transcriptRef b @ x, transcript := transcriptRef b @ x,
       dbUpdateRef := Some (d\<lparr>timeout := Some (t + wait d, transcriptRef b @ x)\<rparr>)\<rparr>"
  using assms by (simp add: handleContent_def handle_part_def call_debounced_def Let_def)

lemma run_timers_pending:
  assumes "dbUpdateRef (component pg) = Some d" and "timeout d = Some (due, arg)" and "now < due"
  shows "run_timers now pg = pg"
  using assms by (simp add: run_timers_def)

lemma run_timers_none:
  assumes "dbUpdateRef (component pg) = Some d" and "timeout d = None"
  shows "run_timers now pg = pg"
  using assms by (simp add: run_timers_def)

lemma run_timers_due:
  assumes "dbUpdateRef (component pg) = Some d" and "timeout d = Some (due, arg)" and "due \<le> now"
  shows "saves (run_timers now pg) = saves pg @ [(sessionIdRef (component pg), arg)]"
    and "dbUpdateRef (component (run_timers now pg)) = Some (d\<lparr>timeout := None\<rparr>)"
    and "transcriptRef (component (run_timers now pg)) = transcriptRef (component pg)"
    and "sessionIdRef (component (run_timers now pg)) = sessionIdRef (component pg)"
  using assms by (simp_all add: run_timers_def)

lemma run_Cons: "run throws display (te # evs) pg = run throws display evs (step throws display te pg)"
  by (simp add: run_def)

lemma run_append: "run throws display (evs @ evs') pg = run throws display evs' (run throws display evs pg)"
  by (simp add: run_def)

lemma run_Nil: "run throws display [] pg = pg"
  by (simp add: run_def)

lemma step_delta_pending:
  assumes "x \<noteq> []" and "dbUpdateRef (component pg) = Some d"
    and "timeout d = None \<or> (\<exists>due arg. timeout d = Some (due, arg) \<and> t < due)"
  shows "step throws display (t, Content (Some [Some x])) pg =
     pg\<lparr>component := (component pg)
         \<lparr>transcriptRef := transcriptRef (component pg) @ x,
          transcript := transcriptRef (component pg) @ x,
          dbUpdateRef := Some (d\<lparr>timeout := Some (t + wait d, transcriptRef (component pg) @ x)\<rparr>)\<rparr>\<rparr>"
proof -
  from assms(2,3) have "run_timers t pg = pg"
    by (auto simp: run_timers_pending run_timers_none)
  then show ?thesis using assms(1,2) by (simp add: step_def handle_delta)
qed

lemma run_burst:
  assumes "burst prev ds" and "dbUpdateRef (component pg) = Some d" and "wait d = 2000"
    and "timeout d = Some (prev + 2000, arg)"
  shows "saves (run throws display (deltas ds) pg) = saves pg
     \<and> sessionIdRef (component (run throws display (deltas ds) pg)) = sessionIdRef (component pg)
     \<and> transcriptRef (component (run throws display (deltas ds) pg)) =
         transcriptRef (component pg) @ concat (map snd ds)
     \<and> dbUpdateRef (component (run throws display (deltas ds) pg)) =
         Some (d\<lparr>timeout := Some (if ds = [] then (prev + 2000, arg)
                 else (fst (last ds) + 2000, transcriptRef (component pg) @ concat (map snd ds)))\<rparr>)"
  using assms
proof (induction ds arbitrary: prev pg d arg)
  case Nil
  then show ?case by (simp add: deltas_def run_Nil)
next
  case (Cons a ds)
  obtain t x where a: "a = (t, x)" by (cases a)
  let ?b = "component pg"
  let ?d' = "d\<lparr>timeout := Some (t + 2000, transcriptRef ?b @ x)\<rparr>"
  let ?pg' = "pg\<lparr>component := ?b\<lparr>transcriptRef := transcriptRef ?b @ x,
          transcript := transcriptRef ?b @ x, dbUpdateRef := Some ?d'\<rparr>\<rparr>"
  from Cons.prems a have b: "prev \<le> t" "t < prev + 2000" "x \<noteq> []" "burst t ds" by simp_all
  have st: "step throws display (t, Content (Some [Some x])) pg = ?pg'"
    using step_delta_pending [OF b(3) Cons.prems(2), of t throws display] Cons.prems(3,4) b(2)
    by simp
  have IH: "saves (run throws display (deltas ds) ?pg') = saves ?pg'
     \<and> sessionIdRef (component (run throws display (deltas ds) ?pg')) = sessionIdRef (component ?pg')
     \<and> transcriptRef (component (run throws display (deltas ds) ?pg')) =
         transcriptRef (component ?pg') @ concat (map snd ds)
     \<and> dbUpdateRef (component (run throws display (deltas ds) ?pg')) =
         Some (?d'\<lparr>timeout := Some (if ds = [] then (t + 2000, transcriptRef ?b @ x)
                 else (fst (last ds) + 2000, transcriptRef (component ?pg') @ concat (map snd ds)))\<rparr>)"
    by (rule Cons.IH [OF b(4)]) (simp_all add: Cons.prems(3))
  have run: "run throws display (deltas (a # ds)) pg = run throws display (deltas ds) ?pg'"
    using st a by (simp add: deltas_def run_Cons)
  show ?case unfolding run using IH a by (simp add: a)
qed

lemma step_Idle: "step throws display (T, Idle) pg = run_timers T pg"
  by (simp add: step_def)

lemma fresh_page_simps:
  "dbUpdateRef (component (fresh_page sid w)) = Some (debounce 2000)"
  "transcriptRef (component (fresh_page sid w)) = []"
  "sessionIdRef (component (fresh_page sid w)) = sid"
  "saves (fresh_page sid w) = []"
  "timeout (debounce 2000) = None" "wait (debounce 2000) = 2000"
  by (simp_all add: fresh_page_def mount_def debounce_def)

lemma burst_coalesced:
  assumes "x0 \<noteq> []" and "burst t0 rest" and "fst (last ((t0, x0) # rest)) + 2000 \<le> T"
    and "dbUpdateRef (component pg) = Some d" and "wait d = 2000" and "timeout d = None"
  shows "saves (run throws display (deltas ((t0, x0) # rest)) pg) = saves pg"
    and "saves (run throws display (deltas ((t0, x0) # rest) @ [(T, Idle)]) pg) =
           saves pg @ [(sessionIdRef (component pg),
                        transcriptRef (component pg) @ concat (map snd ((t0, x0) # rest)))]"
proof -
  let ?b = "component pg"
  let ?d1 = "d\<lparr>timeout := Some (t0 + 2000, transcriptRef ?b @ x0)\<rparr>"
  let ?pg1 = "pg\<lparr>component := ?b\<lparr>transcriptRef := transcriptRef ?b @ x0,
      transcript := transcriptRef ?b @ x0, dbUpdateRef := Some ?d1\<rparr>\<rparr>"
  let ?end = "run throws display (deltas rest) ?pg1"
  have st: "step throws display (t0, Content (Some [Some x0])) pg = ?pg1"
    using step_delta_pending [OF assms(1,4), of t0 throws display] assms(5,6)
    by simp
  have split: "run throws display (deltas ((t0, x0) # rest)) pg = ?end"
    using st by (simp add: deltas_def run_Cons)
  have inv: "saves ?end = saves ?pg1
     \<and> sessionIdRef (component ?end) = sessionIdRef (component ?pg1)
     \<and> transcriptRef (component ?end) = transcriptRef (component ?pg1) @ concat (map snd rest)
     \<and> dbUpdateRef (component ?end) =
         Some (?d1\<lparr>timeout := Some (if rest = [] then (t0 + 2000, transcriptRef ?b @ x0)
                 else (fst (last rest) + 2000,
                       transcriptRef (component ?pg1) @ concat (map snd rest)))\<rparr>)"
    by (rule run_burst [OF assms(2)]) (simp_all add: assms(5))
  from inv show "saves (run throws display (deltas ((t0, x0) # rest)) pg) = saves pg"
    unfolding split by simp
  define due where "due = fst (last ((t0, x0) # rest)) + 2000"
  define full where "full = transcriptRef ?b @ concat (map snd ((t0, x0) # rest))"
  from inv have timer: "dbUpdateRef (component ?end) = Some (?d1\<lparr>timeout := Some (due, full)\<rparr>)"
    by (simp add: due_def full_def)
  have fire: "saves (run_timers T ?end) = saves ?end @ [(sessionIdRef (component ?end), full)]"
    by (rule run_timers_due(1) [OF timer, of due]) (use assms(3) in \<open>simp_all add: due_def\<close>)
  have "run throws display (deltas ((t0, x0) # rest) @ [(T, Idle)]) pg = run_timers T ?end"
    by (simp add: run_append split run_Cons run_Nil step_Idle)
  with fire inv show "saves (run throws display (deltas ((t0, x0) # rest) @ [(T, Idle)]) pg) =
       saves pg @ [(sessionIdRef (component pg),
                    transcriptRef (component pg) @ concat (map snd ((t0, x0) # rest)))]"
    by (simp add: full_def)
qed

lemma separated_deltas:
  assumes "x0 \<noteq> []" and "x1 \<noteq> []" and "t0 + 2000 < t1" and "t1 + 2000 \<le> T"
  shows "saves (run throws display (deltas [(t0, x0), (t1, x1)] @ [(T, Idle)]) (fresh_page sid w)) =
           [(sid, x0), (sid, x0 @ x1)]"
  using assms
  by (simp add: run_def step_def run_timers_def handleContent_def handle_part_def
      call_debounced_def fresh_page_def mount_def debounce_def deltas_def Let_def)

text \<open>
  Claim C2. Take one or more non-empty text deltas, each arriving less than 2000 ms
  after the one before, while no save is pending. While they arrive \<open>debouncedSave\<close> is
  not invoked; once 2000 ms have passed after the last one it has been invoked exactly
  once more, with the whole transcript: what it held before, followed by all the deltas
  in arrival order. In a freshly mounted component that is the one and only invocation
  and its text is the concatenation of the deltas. Two deltas more than 2000 ms apart
  give two invocations, the first with the first delta, the second with both.
\<close>

theorem debounce_one_save_per_burst:
  "(x0 \<noteq> [] \<and> burst t0 rest \<and> fst (last ((t0, x0) # rest)) + 2000 \<le> T
      \<and> dbUpdateRef (component pg) = Some d \<and> wait d = 2000 \<and> timeout d = None \<longrightarrow>
      saves (run throws display (deltas ((t0, x0) # rest)) pg) = saves pg
      \<and> saves (run throws display (deltas ((t0, x0) # rest) @ [(T, Idle)]) pg) =
          saves pg @ [(sessionIdRef (component pg),
                       transcriptRef (component pg) @ concat (map snd ((t0, x0) # rest)))])
   \<and> (x0 \<noteq> [] \<and> burst t0 rest \<and> fst (last ((t0, x0) # rest)) + 2000 \<le> T \<longrightarrow>
      saves (run throws display (deltas ((t0, x0) # rest)) (fresh_page sid w)) = []
      \<and> saves (run throws display (deltas ((t0, x0) # rest) @ [(T, Idle)]) (fresh_page sid w)) =
          [(sid, concat (map snd ((t0, x0) # rest)))])
   \<and> (x0 \<noteq> [] \<and> x1 \<noteq> [] \<and> t0 + 2000 < t1 \<and> t1 + 2000 \<le> T' \<longrightarrow>
        saves (run throws display (deltas [(t0, x0), (t1, x1)] @ [(T', Idle)]) (fresh_page sid w)) =
          [(sid, x0), (sid, x0 @ x1)])"
proof (intro conjI impI)
  assume h: "x0 \<noteq> [] \<and> burst t0 rest \<and> fst (last ((t0, x0) # rest)) + 2000 \<le> T
      \<and> dbUpdateRef (component pg) = Some d \<and> wait d = 2000 \<and> timeout d = None"
  then show "saves (run throws display (deltas ((t0, x0) # rest)) pg) = saves pg"
    by (intro burst_coalesced(1) [where T = T and d = d]) simp_all
  from h show "saves (run throws display (deltas ((t0, x0) # rest) @ [(T, Idle)]) pg) =
      saves pg @ [(sessionIdRef (component pg),
                   transcriptRef (component pg) @ concat (map snd ((t0, x0) # rest)))]"
    by (intro burst_coalesced(2) [where d = d]) simp_all
next
  assume h: "x0 \<noteq> [] \<and> burst t0 rest \<and> fst (last ((t0, x0) # rest)) + 2000 \<le> T"
  then have "saves (run throws display (deltas ((t0, x0) # rest)) (fresh_page sid w)) =
      saves (fresh_page sid w)"
    by (intro burst_coalesced(1) [where T = T and d = "debounce 2000"])
      (simp_all add: fresh_page_simps)
  then show "saves (run throws display (deltas ((t0, x0) # rest)) (fresh_page sid w)) = []"
    by (simp add: fresh_page_simps)
  from h have "saves (run throws display (deltas ((t0, x0) # rest) @ [(T, Idle)]) (fresh_page sid w)) =
      saves (fresh_page sid w) @ [(sessionIdRef (component (fresh_page sid w)),
        transcriptRef (component (fresh_page sid w)) @ concat (map snd ((t0, x0) # rest)))]"
    by (intro burst_coalesced(2) [where d = "debounce 2000"])
      (simp_all add: fresh_page_simps)
  then show "saves (run throws display (deltas ((t0, x0) # rest) @ [(T, Idle)]) (fresh_page sid w)) =
      [(sid, concat (map snd ((t0, x0) # rest)))]"
    by (simp add: fresh_page_simps)
next
  assume "x0 \<noteq> [] \<and> x1 \<noteq> [] \<and> t0 + 2000 < t1 \<and> t1 + 2000 \<le> T'"
  then show "saves (run throws display (deltas [(t0, x0), (t1, x1)] @ [(T', Idle)]) (fresh_page sid w)) =
      [(sid, x0), (sid, x0 @ x1)]"
    by (intro separated_deltas) simp_all
qed

theorem debounce_one_save_per_burst_witness:
  "''He'' \<noteq> [] \<and> burst 0 [(500, ''llo''), (1200, ''!'')]
   \<and> fst (last [(0, ''He''), (500, ''llo''), (1200, ''!'')]) + 2000 \<le> (3200 :: nat)
   \<and> dbUpdateRef (component (fresh_page ''sid-1'' empty_browser)) = Some (debounce 2000)
   \<and> wait (debounce 2000) = 2000 \<and> timeout (debounce 2000) = None
   \<and> saves (run never Shared (deltas [(0, ''He''), (500, ''llo''), (1200, ''!'')])
        (fresh_page ''sid-1'' empty_browser)) = []
   \<and> saves (run never Shared (deltas [(0, ''He''), (500, ''llo''), (1200, ''!'')] @ [(3200, Idle)])
        (fresh_page ''sid-1'' empty_browser)) = [(''sid-1'', ''Hello!'')]
   \<and> ''llo'' \<noteq> [] \<and> (0 :: nat) + 2000 < 2500 \<and> (2500 :: nat) + 2000 \<le> 4500
   \<and> saves (run never Shared (deltas [(0, ''He''), (2500, ''llo'')] @ [(4500, Idle)])
        (fresh_page ''sid-1'' empty_browser)) = [(''sid-1'', ''He''), (''sid-1'', ''Hello'')]"
  using debounce_one_save_per_burst [where ?x0.0 = "''He''" and ?t0.0 = 0
      and rest = "[(500, ''llo''), (1200, ''!'')]" and T = 3200
      and pg = "fresh_page ''sid-1'' empty_browser" and d = "debounce 2000"
      and throws = never and display = Shared and sid = "''sid-1''" and w = empty_browser
      and ?x1.0 = "''llo''" and ?t1.0 = 2500 and T' = 4500]
  by (simp add: fresh_page_simps)

section \<open>Properties of the session controller\<close>

lemma stopBroadcast_keeps_session:
  "sessionIdRef (fst (snd (stopBroadcast throws b w))) = sessionIdRef b
   \<and> sessionId (fst (snd (stopBroadcast throws b w))) = sessionId b
   \<and> transcriptRef (fst (snd (stopBroadcast throws b w))) = transcriptRef b
   \<and> transcript (fst (snd (stopBroadcast throws b w))) = transcript b"
  by (simp add: stopBroadcast_def disconnect_def split: option.splits prod.splits)

lemma begin_broadcast_keeps_session:
  "sessionIdRef (fst (snd (begin_broadcast throws a b w))) = sessionIdRef b
   \<and> sessionId (fst (snd (begin_broadcast throws a b w))) = sessionId b
   \<and> transcriptRef (fst (snd (begin_broadcast throws a b w))) = transcriptRef b
   \<and> transcript (fst (snd (begin_broadcast throws a b w))) = transcript b"
  by (simp add: begin_broadcast_def stopBroadcast_keeps_session connect_def Let_def
      split: option.splits prod.splits)

lemma toggleBroadcast_keeps_session:
  "sessionIdRef (fst (snd (toggleBroadcast throws display b w))) = sessionIdRef b
   \<and> sessionId (fst (snd (toggleBroadcast throws display b w))) = sessionId b
   \<and> transcriptRef (fst (snd (toggleBroadcast throws display b w))) = transcriptRef b
   \<and> transcript (fst (snd (toggleBroadcast throws display b w))) = transcript b"
  by (simp add: toggleBroadcast_def display_catch_def stopBroadcast_keeps_session
      begin_broadcast_keeps_session Let_def split: display_reply.splits prod.splits)

lemma source_ended_keeps_session:
  "sessionIdRef (fst (snd (source_ended throws s b w))) = sessionIdRef b
   \<and> sessionId (fst (snd (source_ended throws s b w))) = sessionId b
   \<and> transcriptRef (fst (snd (source_ended throws s b w))) = transcriptRef b
   \<and> transcript (fst (snd (source_ended throws s b w))) = transcript b"
  by (simp add: source_ended_def stopBroadcast_keeps_session)

lemma handle_part_session:
  "sessionIdRef (handle_part now p b) = sessionIdRef b
   \<and> sessionId (handle_part now p b) = sessionId b
   \<and> transcriptRef (handle_part now p b) = transcriptRef b @ part_text p"
  by (simp add: handle_part_def part_text_def Let_def split: option.splits)

lemma fold_handle_part_session:
  "sessionIdRef (fold (handle_part now) ps b) = sessionIdRef b
   \<and> sessionId (fold (handle_part now) ps b) = sessionId b
   \<and> transcriptRef (fold (handle_part now) ps b) = transcriptRef b @ concat (map part_text ps)"
  by (induction ps arbitrary: b) (simp_all add: handle_part_session)

lemma run_timers_session:
  "sessionIdRef (component (run_timers now pg)) = sessionIdRef (component pg)
   \<and> sessionId (component (run_timers now pg)) = sessionId (component pg)
   \<and> transcriptRef (component (run_timers now pg)) = transcriptRef (component pg)"
  by (simp add: run_timers_def split: option.splits prod.splits)

lemma step_session:
  "sessionIdRef (component (step throws display te pg)) = sessionIdRef (component pg)
   \<and> sessionId (component (step throws display te pg)) = sessionId (component pg)
   \<and> transcriptRef (component (step throws display te pg)) =
       transcriptRef (component pg) @ event_text te"
proof (cases "snd te")
  case Click
  then show ?thesis
    by (simp add: step_def Let_def event_text_def toggleBroadcast_keeps_session run_timers_session)
next
  case (Content sc)
  then show ?thesis
    by (cases sc)
      (simp_all add: step_def Let_def event_text_def handleContent_def
        fold_handle_part_session run_timers_session)
next
  case (SourceEnded s)
  then show ?thesis
    by (simp add: step_def Let_def event_text_def source_ended_keeps_session run_timers_session)
next
  case Idle
  then show ?thesis
    by (simp add: step_def Let_def event_text_def run_timers_session)
qed

lemma run_session:
  "sessionIdRef (component (run throws display evs pg)) = sessionIdRef (component pg)
   \<and> sessionId (component (run throws display evs pg)) = sessionId (component pg)
   \<and> transcriptRef (component (run throws display evs pg)) =
       transcriptRef (component pg) @ delivered evs"
proof (induction evs arbitrary: pg)
  case Nil
  then show ?case by (simp add: run_Nil delivered_def)
next
  case (Cons te evs)
  have "delivered (te # evs) = event_text te @ delivered evs"
    by (simp add: delivered_def)
  with Cons [of "step throws display te pg"] step_session [of throws display te pg]
  show ?case by (simp add: run_Cons)
qed

lemmas broadcast_defs = toggleBroadcast_def begin_broadcast_def stopBroadcast_def
  source_ended_def connect_def disconnect_def getDisplayMedia_def

lemmas page_defs = run_def step_def run_timers_def handleContent_def handle_part_def
  call_debounced_def fresh_page_def mount_def debounce_def

text \<open>
  Claim C7, as stated, fails: start a broadcast, receive the text \<open>a\<close>, stop, start
  again. The second broadcast runs under the session identifier of the first, and its
  transcript already holds \<open>a\<close>; after the stop in between, neither had been reset.
\<close>

theorem second_session_same_id:
  "isRecording (component (run never Shared [(0, Click)] (fresh_page ''sid-1'' empty_browser)))
   \<and> sessionIdRef (component (run never Shared [(0, Click)]
        (fresh_page ''sid-1'' empty_browser))) = ''sid-1''
   \<and> \<not> isRecording (component (run never Shared
        [(0, Click), (10, Content (Some [Some ''a''])), (20, Click)]
        (fresh_page ''sid-1'' empty_browser)))
   \<and> sessionIdRef (component (run never Shared
        [(0, Click), (10, Content (Some [Some ''a''])), (20, Click)]
        (fresh_page ''sid-1'' empty_browser))) = ''sid-1''
   \<and> transcriptRef (component (run never Shared
        [(0, Click), (10, Content (Some [Some ''a''])), (20, Click)]
        (fresh_page ''sid-1'' empty_browser))) = ''a''
   \<and> isRecording (component (run never Shared
        [(0, Click), (10, Content (Some [Some ''a''])), (20, Click), (30, Click)]
        (fresh_page ''sid-1'' empty_browser)))
   \<and> sessionIdRef (component (run never Shared
        [(0, Click), (10, Content (Some [Some ''a''])), (20, Click), (30, Click)]
        (fresh_page ''sid-1'' empty_browser))) = ''sid-1''
   \<and> transcriptRef (component (run never Shared
        [(0, Click), (10, Content (Some [Some ''a''])), (20, Click), (30, Click)]
        (fresh_page ''sid-1'' empty_browser))) = ''a''"
  by (simp add: page_defs broadcast_defs start_defs stop_defs never_def
      new_AudioRecorder_def empty_browser_def Let_def)

text \<open>
  Claim C7, amended. The session identifier is the one generated when the component
  mounts, and the transcript buffer starts empty then. Whatever happens afterwards
  (clicks that start or stop a broadcast, content messages, the end of a shared stream,
  timers) the identifier stays that one and the buffer is exactly what it was followed
  by the text delivered since: \<open>stopBroadcast\<close> in particular leaves both as they are.
\<close>

theorem session_id_per_mount:
  "sessionIdRef (mount sid) = sid \<and> sessionId (mount sid) = sid
   \<and> transcriptRef (mount sid) = []
   \<and> sessionIdRef (component (run throws display evs pg)) = sessionIdRef (component pg)
   \<and> sessionId (component (run throws display evs pg)) = sessionId (component pg)
   \<and> transcriptRef (component (run throws display evs pg)) =
       transcriptRef (component pg) @ delivered evs
   \<and> sessionIdRef (fst (snd (stopBroadcast throws b w))) = sessionIdRef b
   \<and> transcriptRef (fst (snd (stopBroadcast throws b w))) = transcriptRef b"
  using run_session [of throws display evs pg] stopBroadcast_keeps_session [of throws b w]
  by (simp add: mount_def)

lemma toggle_shared_starts:
  assumes "audioSource b0 = screen_tab" and "\<not> isRecording b0" and "\<forall>c. \<not> throws c"
  shows "\<exists>b1 w1 r. toggleBroadcast throws Shared b0 w0 = (None, b1, w1)
     \<and> isRecording b1 \<and> connected b1 \<and> recorderRef b1 = Some r
     \<and> stream r = Some (next_handle w0)
     \<and> next_handle w0 \<in> onended w1 \<and> next_handle w0 \<in> live_streams w1"
  using assms by (simp add: broadcast_defs start_defs Let_def)

lemma stopBroadcast_tears_down:
  assumes "no_release_throws throws"
  shows "\<exists>b' w'. stopBroadcast throws b w = (None, b', w')
     \<and> \<not> isRecording b' \<and> micVolume b' = 0 \<and> \<not> connected b'
     \<and> (case recorderRef b of
           None \<Rightarrow> recorderRef b' = None
         | Some r \<Rightarrow> recorderRef b' = Some new_AudioRecorder \<and> nothing_engaged r w')"
proof (cases "recorderRef b")
  case None
  then show ?thesis by (simp add: stopBroadcast_def disconnect_def)
next
  case (Some r)
  from stop_complete [OF assms, of r w] obtain w' where
    "stop throws r w = (None, new_AudioRecorder, w')" and "nothing_engaged r w'"
    by blast
  with Some show ?thesis by (simp add: stopBroadcast_def disconnect_def)
qed

text \<open>
  Claim C8. While a broadcast is running and the shared stream's end handler is set, the
  end of the stream does exactly what a click on the button (the explicit stop) does in
  that state, with no click involved: when the release calls do not throw, the recorder
  is stopped with nothing of it left engaged, the connection is closed, and the recording
  flag and the volume are back to false and 0. And a broadcast started on the shared-tab
  source, when every call succeeds, is in that state: recording, connected, with the
  handler set on the very stream the recorder captures.
\<close>

theorem source_end_tears_down:
  "(isRecording b \<and> s \<in> onended w \<and> no_release_throws throws \<longrightarrow>
      source_ended throws s b w = toggleBroadcast throws display b w
      \<and> (\<exists>b' w'. source_ended throws s b w = (None, b', w')
            \<and> \<not> isRecording b' \<and> micVolume b' = 0 \<and> \<not> connected b'
            \<and> (case recorderRef b of
                  None \<Rightarrow> recorderRef b' = None
                | Some r \<Rightarrow> recorderRef b' = Some new_AudioRecorder \<and> nothing_engaged r w')))
   \<and> (audioSource b0 = screen_tab \<and> \<not> isRecording b0 \<and> (\<forall>c. \<not> throws c) \<longrightarrow>
        (\<exists>b1 w1 r. toggleBroadcast throws Shared b0 w0 = (None, b1, w1)
           \<and> isRecording b1 \<and> connected b1 \<and> recorderRef b1 = Some r
           \<and> stream r = Some (next_handle w0)
           \<and> next_handle w0 \<in> onended w1 \<and> next_handle w0 \<in> live_streams w1))"
proof (intro conjI impI)
  assume h: "isRecording b \<and> s \<in> onended w \<and> no_release_throws throws"
  then show "source_ended throws s b w = toggleBroadcast throws display b w"
    by (simp add: source_ended_def toggleBroadcast_def)
  from h stopBroadcast_tears_down [of throws b w]
  show "\<exists>b' w'. source_ended throws s b w = (None, b', w')
            \<and> \<not> isRecording b' \<and> micVolume b' = 0 \<and> \<not> connected b'
            \<and> (case recorderRef b of
                  None \<Rightarrow> recorderRef b' = None
                | Some r \<Rightarrow> recorderRef b' = Some new_AudioRecorder \<and> nothing_engaged r w')"
    by (simp add: source_ended_def)
next
  assume "audioSource b0 = screen_tab \<and> \<not> isRecording b0 \<and> (\<forall>c. \<not> throws c)"
  then show "\<exists>b1 w1 r. toggleBroadcast throws Shared b0 w0 = (None, b1, w1)
           \<and> isRecording b1 \<and> connected b1 \<and> recorderRef b1 = Some r
           \<and> stream r = Some (next_handle w0)
           \<and> next_handle w0 \<in> onended w1 \<and> next_handle w0 \<in> live_streams w1"
    by (intro toggle_shared_starts) simp_all
qed

lemma sharing_reached:
  "toggleBroadcast never Shared tab_component empty_browser =
     (None, sharing_component, sharing_browser)"
  by (simp add: broadcast_defs start_defs never_def tab_component_def sharing_component_def
      sharing_browser_def started_recorder_def started_browser_def mount_def
      new_AudioRecorder_def empty_browser_def Let_def numeral_2_eq_2 numeral_3_eq_3)

theorem source_end_tears_down_witness:
  "isRecording sharing_component \<and> 0 \<in> onended sharing_browser \<and> no_release_throws never
   \<and> source_ended never 0 sharing_component sharing_browser =
       toggleBroadcast never Shared sharing_component sharing_browser
   \<and> (\<exists>b' w'. source_ended never 0 sharing_component sharing_browser = (None, b', w')
         \<and> \<not> isRecording b' \<and> micVolume b' = 0 \<and> \<not> connected b'
         \<and> recorderRef b' = Some new_AudioRecorder \<and> nothing_engaged started_recorder w')
   \<and> audioSource tab_component = screen_tab \<and> \<not> isRecording tab_component
   \<and> (\<forall>c. \<not> never c)
   \<and> (\<exists>b1 w1 r. toggleBroadcast never Shared tab_component empty_browser = (None, b1, w1)
         \<and> isRecording b1 \<and> connected b1 \<and> recorderRef b1 = Some r
         \<and> stream r = Some 0 \<and> 0 \<in> onended w1 \<and> 0 \<in> live_streams w1)"
proof -
  have h1: "isRecording sharing_component \<and> 0 \<in> onended sharing_browser
      \<and> no_release_throws never"
    by (simp add: sharing_component_def sharing_browser_def no_release_throws_def never_def)
  have h2: "audioSource tab_component = screen_tab \<and> \<not> isRecording tab_component
      \<and> (\<forall>c. \<not> never c)"
    by (simp add: tab_component_def mount_def never_def)
  have r: "recorderRef sharing_component = Some started_recorder"
    by (simp add: sharing_component_def)
  have n: "next_handle empty_browser = 0"
    by (simp add: empty_browser_def)
  from source_end_tears_down [of sharing_component 0 sharing_browser never Shared
      tab_component empty_browser] h1 h2
  have "source_ended never 0 sharing_component sharing_browser =
       toggleBroadcast never Shared sharing_component sharing_browser
   \<and> (\<exists>b' w'. source_ended never 0 sharing_component sharing_browser = (None, b', w')
         \<and> \<not> isRecording b' \<and> micVolume b' = 0 \<and> \<not> connected b'
         \<and> (case recorderRef sharing_component of
               None \<Rightarrow> recorderRef b' = None
             | Some r \<Rightarrow> recorderRef b' = Some new_AudioRecorder \<and> nothing_engaged r w'))
   \<and> (\<exists>b1 w1 r. toggleBroadcast never Shared tab_component empty_browser = (None, b1, w1)
         \<and> isRecording b1 \<and> connected b1 \<and> recorderRef b1 = Some r
         \<and> stream r = Some (next_handle empty_browser)
         \<and> next_handle empty_browser \<in> onended w1
         \<and> next_handle empty_browser \<in> live_streams w1)"
    by blast
  then show ?thesis
    unfolding r n option.case using h1 h2 by blast
qed

text \<open>
  The caller's side of a failed \<open>start\<close>: the \<open>catch\<close> in \<open>toggleBroadcast\<close> calls
  \<open>stopBroadcast\<close>, so after a click whose \<open>start\<close> fails the recorder is stopped, the
  connection closed and the page back to not recording.
\<close>

lemma begin_broadcast_failure_cleans:
  assumes "start throws a new_AudioRecorder w = (Some e, r', w')"
    and "\<not> throws LiveConnect" and "no_release_throws throws"
  shows "\<exists>b'' w''. begin_broadcast throws a b w = (None, b'', w'')
     \<and> \<not> isRecording b'' \<and> \<not> connected b'' \<and> micVolume b'' = 0
     \<and> recorderRef b'' = Some new_AudioRecorder \<and> nothing_engaged r' w''"
proof -
  let ?w1 = "w'\<lparr>console := console w' @ [''Failed to start broadcast'']\<rparr>"
  from stop_complete [OF assms(3), of r' ?w1] obtain w'' where
    "stop throws r' ?w1 = (None, new_AudioRecorder, w'')" and "nothing_engaged r' w''"
    by blast
  with assms(1,2) show ?thesis
    by (simp add: begin_broadcast_def stopBroadcast_def connect_def disconnect_def Let_def)
qed

end
